theory Spec2Isabelle
  imports Complex_Main
begin

section \<open>Python strings\<close>

text \<open>
  A Python \<open>str\<close> is a sequence of Unicode code points. The price example of the
  specification contains the euro sign (U+20AC) and the messages of \<open>main.py\<close> contain
  accented letters, so a string is modelled as the list of its code points.
  \<open>lit\<close> turns an ASCII literal into such a list.
\<close>

type_synonym ustr = "nat list"

definition lit :: "string \<Rightarrow> ustr" where
  "lit s = map of_char s"

text \<open>
  \<open>str.isspace\<close> for one code point: the white space of CPython's Unicode database
  (\<open>_PyUnicode_IsWhitespace\<close>). \<open>str.strip()\<close> removes such code points at both ends.
\<close>

definition isspace :: "nat \<Rightarrow> bool" where
  "isspace c \<longleftrightarrow>
     (9 \<le> c \<and> c \<le> 13) \<or> (28 \<le> c \<and> c \<le> 32) \<or> c = 0x85 \<or> c = 0xA0 \<or> c = 0x1680 \<or>
     (0x2000 \<le> c \<and> c \<le> 0x200A) \<or> c = 0x2028 \<or> c = 0x2029 \<or> c = 0x202F \<or>
     c = 0x205F \<or> c = 0x3000"

definition lstrip :: "ustr \<Rightarrow> ustr" where
  "lstrip s = dropWhile isspace s"

definition rstrip :: "ustr \<Rightarrow> ustr" where
  "rstrip s = rev (dropWhile isspace (rev s))"

definition strip :: "ustr \<Rightarrow> ustr" where
  "strip s = rstrip (lstrip s)"

text \<open>
  \<open>str.lower()\<close>. Python applies the lower-case mapping of the Unicode database. The
  model is exact on ASCII and on the two code points outside ASCII whose lower case
  contains an ASCII letter (U+0130 gives \<open>i\<close> followed by U+0307, U+212A gives \<open>k\<close>);
  every other code point is returned as it is, where Python returns code points outside
  ASCII as well. \<open>main.py\<close> only compares the result with the ASCII literals
  \<open>"luxior"\<close> and \<open>"ami3f"\<close>, and those comparisons come out as in Python.
\<close>

definition lower_cp :: "nat \<Rightarrow> ustr" where
  "lower_cp c =
     (if 65 \<le> c \<and> c \<le> 90 then [c + 32]
      else if c = 0x130 then [105, 0x307]
      else if c = 0x212A then [107]
      else [c])"

definition lower :: "ustr \<Rightarrow> ustr" where
  "lower s = concat (map lower_cp s)"

text \<open>\<open>str(n)\<close> of an integer, as the f-string \<open>{response.status_code}\<close> renders it.\<close>

fun digits10 :: "nat \<Rightarrow> ustr" where
  "digits10 n = (if n < 10 then [48 + n] else digits10 (n div 10) @ [48 + n mod 10])"

declare digits10.simps [simp del]

definition str_int :: "int \<Rightarrow> ustr" where
  "str_int i = (if i < 0 then 45 # digits10 (nat (- i)) else digits10 (nat i))"

text \<open>
  The decimal digits of the Unicode database (general category Nd): each entry of
  \<open>nd_zeros\<close> is the code point of a digit zero, followed by the digits one to nine of
  its script. This is the table of Unicode 14.0, which CPython 3.11 ships; \<open>\d\<close> in a
  \<open>str\<close> pattern matches exactly these code points, and \<open>float\<close> reads each of them
  as its decimal value.
\<close>

definition nd_zeros :: "nat list" where
  "nd_zeros =
     [0x30, 0x660, 0x6F0, 0x7C0, 0x966, 0x9E6, 0xA66, 0xAE6, 0xB66, 0xBE6, 0xC66, 0xCE6,
      0xD66, 0xDE6, 0xE50, 0xED0, 0xF20, 0x1040, 0x1090, 0x17E0, 0x1810, 0x1946, 0x19D0,
      0x1A80, 0x1A90, 0x1B50, 0x1BB0, 0x1C40, 0x1C50, 0xA620, 0xA8D0, 0xA900, 0xA9D0,
      0xA9F0, 0xAA50, 0xABF0, 0xFF10, 0x104A0, 0x10D30, 0x11066, 0x110F0, 0x11136,
      0x111D0, 0x112F0, 0x11450, 0x114D0, 0x11650, 0x116C0, 0x11730, 0x118E0, 0x11950,
      0x11C50, 0x11D50, 0x11DA0, 0x16A60, 0x16AC0, 0x16B50, 0x1D7CE, 0x1D7D8, 0x1D7E2,
      0x1D7EC, 0x1D7F6, 0x1E140, 0x1E2F0, 0x1E950, 0x1FBF0]"

definition decimal :: "nat \<Rightarrow> nat option" where
  "decimal c =
     (case List.find (\<lambda>z. z \<le> c \<and> c < z + 10) nd_zeros of
        None \<Rightarrow> None
      | Some z \<Rightarrow> Some (c - z))"

definition isdecimal :: "nat \<Rightarrow> bool" where
  "isdecimal c \<longleftrightarrow> decimal c \<noteq> None"

section \<open>The library calls of the price clean-up\<close>

text \<open>
  \<open>re.sub(pattern, repl, s)\<close> for a pattern that is one character class: every code
  point of the class is a match of length one and is replaced by \<open>repl\<close>.
  \<open>replace_char\<close> is \<open>str.replace(old, new)\<close> for one-character arguments.
\<close>

definition re_sub_class :: "(nat \<Rightarrow> bool) \<Rightarrow> ustr \<Rightarrow> ustr \<Rightarrow> ustr" where
  "re_sub_class cls repl s = concat (map (\<lambda>c. if cls c then repl else [c]) s)"

definition replace_char :: "nat \<Rightarrow> nat \<Rightarrow> ustr \<Rightarrow> ustr" where
  "replace_char old new s = map (\<lambda>c. if c = old then new else c) s"

text \<open>The class \<open>[^\d,.]\<close>: neither a decimal digit, nor a comma (44), nor a period (46).\<close>

definition not_digit_comma_period :: "nat \<Rightarrow> bool" where
  "not_digit_comma_period c \<longleftrightarrow> \<not> (isdecimal c \<or> c = 44 \<or> c = 46)"

text \<open>
  A Python \<open>float\<close> is an IEEE 754 binary64 number; \<open>nan\<close> and the sign of zero play
  no part here. \<open>binary64 x\<close> is the float nearest to the rational \<open>x\<close>, ties going to
  the even significand: with \<open>2 ^ f \<le> x < 2 ^ (f + 1)\<close> the spacing of the floats
  around \<open>x\<close> is \<open>2 ^ e\<close> for \<open>e = max (f - 52) (- 1074)\<close> (the second bound being
  the subnormal range), \<open>x\<close> is rounded to a multiple of that spacing, and a result of
  \<open>2 ^ 1024\<close> or more is infinite.
\<close>

datatype double = Finite rat | PlusInfinity | MinusInfinity

fun bit_length :: "nat \<Rightarrow> nat" where
  "bit_length n = (if n = 0 then 0 else 1 + bit_length (n div 2))"

declare bit_length.simps [simp del]

definition pow2 :: "int \<Rightarrow> rat" where
  "pow2 e = (if 0 \<le> e then 2 ^ nat e else 1 / 2 ^ nat (- e))"

definition floor_log2 :: "rat \<Rightarrow> int" where
  "floor_log2 x =
     (if 1 \<le> x then int (bit_length (nat \<lfloor>x\<rfloor>)) - 1
      else (let f0 = - int (bit_length (nat \<lfloor>1 / x\<rfloor>))
            in if pow2 (f0 + 1) \<le> x then f0 + 1 else f0))"

definition round_half_even :: "rat \<Rightarrow> int" where
  "round_half_even y =
     (let n = \<lfloor>y\<rfloor>; r = y - of_int n
      in if r < 1 / 2 then n else if 1 / 2 < r then n + 1 else if even n then n else n + 1)"

definition binary64_pos :: "rat \<Rightarrow> double" where
  "binary64_pos x =
     (let e = max (floor_log2 x - 52) (- 1074);
          v = of_int (round_half_even (x / pow2 e)) * pow2 e
      in if pow2 1024 \<le> v then PlusInfinity else Finite v)"

definition binary64 :: "rat \<Rightarrow> double" where
  "binary64 x =
     (if x = 0 then Finite 0
      else if 0 < x then binary64_pos x
      else (case binary64_pos (- x) of Finite v \<Rightarrow> Finite (- v) | _ \<Rightarrow> MinusInfinity))"

text \<open>
  \<open>float(s)\<close> on a string of decimal digits and periods, which is all the clean-up
  leaves (lemma \<open>prix_clean_alphabet\<close> below). On such a string Python accepts
  digits with at most one period and at least one digit, and raises \<open>ValueError\<close>
  otherwise; any other code point ends the number and is an error here. The result is
  the float nearest to the decimal value that the string denotes (CPython converts
  with correct rounding): beyond 53 significant bits it is not that value itself, it
  is infinite for a value of \<open>2 ^ 1024\<close> or more, and zero for one below \<open>2 ^ (- 1075)\<close>.
\<close>

datatype value_error = ValueError

fun digit_run :: "ustr \<Rightarrow> nat list \<times> ustr" where
  "digit_run [] = ([], [])"
| "digit_run (c # cs) =
     (case decimal c of
        None \<Rightarrow> ([], c # cs)
      | Some d \<Rightarrow> (case digit_run cs of (ds, rest) \<Rightarrow> (d # ds, rest)))"

definition digits_value :: "nat list \<Rightarrow> nat" where
  "digits_value ds = foldl (\<lambda>acc d. 10 * acc + d) 0 ds"

definition float :: "ustr \<Rightarrow> value_error + double" where
  "float s =
     (case digit_run s of (ip, r1) \<Rightarrow>
        (case r1 of
           [] \<Rightarrow> if ip = [] then Inl ValueError else Inr (binary64 (of_nat (digits_value ip)))
         | c # r2 \<Rightarrow>
             if c \<noteq> 46 then Inl ValueError
             else (case digit_run r2 of (fp, r3) \<Rightarrow>
                     if r3 \<noteq> [] \<or> (ip = [] \<and> fp = []) then Inl ValueError
                     else Inr (binary64 (of_nat (digits_value (ip @ fp)) / 10 ^ length fp)))))"

section \<open>Regular expressions\<close>

text \<open>
  The three patterns that \<open>scrape_ami3f\<close> compiles use literals, \<open>.\<close>, \<open>*\<close> and
  \<open>|\<close>. \<open>Dot\<close> matches any code point but the newline, no flag being given.
  \<open>re_search\<close> is \<open>pattern.search(s) is not None\<close>: some substring of \<open>s\<close> matches.
  Matching is by derivatives; \<open>Eps\<close> and \<open>Empty\<close> only arise there.
\<close>

datatype regex =
    Empty
  | Eps
  | Lit nat
  | Dot
  | Seq regex regex
  | Alt regex regex
  | Star regex

fun nullable :: "regex \<Rightarrow> bool" where
  "nullable Empty = False"
| "nullable Eps = True"
| "nullable (Lit _) = False"
| "nullable Dot = False"
| "nullable (Seq r s) = (nullable r \<and> nullable s)"
| "nullable (Alt r s) = (nullable r \<or> nullable s)"
| "nullable (Star _) = True"

fun deriv :: "nat \<Rightarrow> regex \<Rightarrow> regex" where
  "deriv c Empty = Empty"
| "deriv c Eps = Empty"
| "deriv c (Lit d) = (if c = d then Eps else Empty)"
| "deriv c Dot = (if c = 10 then Empty else Eps)"
| "deriv c (Seq r s) =
     (if nullable r then Alt (Seq (deriv c r) s) (deriv c s) else Seq (deriv c r) s)"
| "deriv c (Alt r s) = Alt (deriv c r) (deriv c s)"
| "deriv c (Star r) = Seq (deriv c r) (Star r)"

text \<open>\<open>match_here r s\<close>: some prefix of \<open>s\<close> matches \<open>r\<close>.\<close>

fun match_here :: "regex \<Rightarrow> ustr \<Rightarrow> bool" where
  "match_here r [] = nullable r"
| "match_here r (c # cs) = (nullable r \<or> match_here (deriv c r) cs)"

fun re_search :: "regex \<Rightarrow> ustr \<Rightarrow> bool" where
  "re_search r [] = nullable r"
| "re_search r (c # cs) = (match_here r (c # cs) \<or> re_search r cs)"

definition word :: "string \<Rightarrow> regex" where
  "word s = foldr (\<lambda>c r. Seq (Lit (of_char c)) r) s Eps"

text \<open>\<open>re.compile('product.*title|name')\<close>, \<open>re.compile('price')\<close>,
  \<open>re.compile('stock|availability')\<close>.\<close>

definition re_name :: regex where
  "re_name = Alt (Seq (word ''product'') (Seq (Star Dot) (word ''title''))) (word ''name'')"

definition re_price :: regex where
  "re_price = word ''price''"

definition re_stock :: regex where
  "re_stock = Alt (word ''stock'') (word ''availability'')"

text \<open>
  The strings that a pattern matches, to say in plain words what \<open>re_search\<close> decides.
\<close>

inductive_set star :: "ustr set \<Rightarrow> ustr set" for L :: "ustr set" where
  star_Nil: "[] \<in> star L"
| star_App: "u \<in> L \<Longrightarrow> v \<in> star L \<Longrightarrow> u @ v \<in> star L"

fun lang :: "regex \<Rightarrow> ustr set" where
  "lang Empty = {}"
| "lang Eps = {[]}"
| "lang (Lit c) = {[c]}"
| "lang Dot = {[c] | c. c \<noteq> 10}"
| "lang (Seq r s) = {u @ v | u v. u \<in> lang r \<and> v \<in> lang s}"
| "lang (Alt r s) = lang r \<union> lang s"
| "lang (Star r) = star (lang r)"

section \<open>The parsed document\<close>

text \<open>
  What \<open>BeautifulSoup(response.text, 'html.parser')\<close> returns: a tree of tags, each
  with its name, the white-space separated tokens of its \<open>class\<close> attribute (none when
  the attribute is missing) and its contents, and of text strings. The
  \<open>BeautifulSoup\<close> object itself is the root tag. Comments and the other strings that
  \<open>.text\<close> skips are left out.
\<close>

datatype node =
    Tag (name: ustr) (classes: "ustr list") (contents: "node list")
  | NavigableString ustr

text \<open>\<open>tag.text\<close>: the text strings below the tag, in document order, concatenated.\<close>

fun get_text :: "node \<Rightarrow> ustr" where
  "get_text (NavigableString s) = s"
| "get_text (Tag n cs kids) = concat (map get_text kids)"

text \<open>The nodes below a tag, in document order: the order in which \<open>find\<close> visits them.\<close>

fun descendants :: "node \<Rightarrow> node list" where
  "descendants (NavigableString s) = []"
| "descendants (Tag n cs kids) = concat (map (\<lambda>k. k # descendants k) kids)"

text \<open>
  The \<open>class_\<close> argument of \<open>find\<close> is a string or a compiled pattern. A tag
  matches when one of its class tokens does, or when the tokens joined by single spaces
  do (bs4 tries the whole attribute value after the tokens). A string without a space
  matches by equality, a pattern by \<open>search\<close>. None of the filters below matches the
  empty string, so a tag without a \<open>class\<close> attribute never matches, as in bs4.
\<close>

datatype class_filter = ClassStr ustr | ClassRe regex

fun matches_string :: "class_filter \<Rightarrow> ustr \<Rightarrow> bool" where
  "matches_string (ClassStr v) s = (s = v)"
| "matches_string (ClassRe r) s = re_search r s"

fun join_space :: "ustr list \<Rightarrow> ustr" where
  "join_space [] = []"
| "join_space [t] = t"
| "join_space (t # ts) = t @ 32 # join_space ts"

definition class_matches :: "class_filter \<Rightarrow> ustr list \<Rightarrow> bool" where
  "class_matches f toks \<longleftrightarrow>
     (\<exists>t \<in> set toks. matches_string f t) \<or> matches_string f (join_space toks)"

text \<open>
  \<open>tag.find(names, class_=f)\<close>: the first tag below \<open>tag\<close>, in document order, whose
  name is one of \<open>names\<close> and whose classes match \<open>f\<close>; \<open>None\<close> when there is none.
  A single name \<open>'div'\<close> is the one-element list.
\<close>

fun tag_matches :: "ustr list \<Rightarrow> class_filter \<Rightarrow> node \<Rightarrow> bool" where
  "tag_matches names f (Tag n cs kids) = (n \<in> set names \<and> class_matches f cs)"
| "tag_matches names f (NavigableString s) = False"

definition find_tag :: "node \<Rightarrow> ustr list \<Rightarrow> class_filter \<Rightarrow> node option" where
  "find_tag t names f = List.find (tag_matches names f) (descendants t)"

section \<open>The request, the record and the outside world\<close>

text \<open>The two pydantic models of \<open>main.py\<close>; an optional field that is not given is
  \<open>None\<close>. The fields \<open>reference\<close> and \<open>fournisseur\<close> of the request carry the prefix
  \<open>req_\<close> here, the record having fields of the same names.\<close>

record ProduitRequest =
  req_reference :: ustr
  req_fournisseur :: ustr

record ProduitResponse =
  reference :: ustr
  fournisseur :: ustr
  prix :: "double option"
  designation :: "ustr option"
  disponibilite :: "ustr option"
  erreur :: "ustr option"

text \<open>
  What a library call can raise inside an adapter: \<open>httpx.TimeoutException\<close> (or a
  subclass), any other subclass of \<open>Exception\<close>, carried with its \<open>str(e)\<close>, and an
  exception that derives from \<open>BaseException\<close> only (a cancellation, an interrupt), which
  \<open>except Exception\<close> does not catch.
\<close>

datatype exn = TimeoutException | OtherException ustr | BaseExceptionOnly

record response =
  status_code :: int
  response_text :: ustr

text \<open>
  The supplier's server and the HTML parser are outside the repository, so an adapter
  takes them as parameters: \<open>client_get\<close> is \<open>await client.get(url)\<close> of the
  \<open>httpx.AsyncClient\<close> (time-out 30 seconds, redirects followed), \<open>BeautifulSoup\<close> is
  \<open>BeautifulSoup(text, 'html.parser')\<close>. Each returns its value or raises.
\<close>

record env =
  client_get :: "ustr \<Rightarrow> exn + response"
  BeautifulSoup :: "ustr \<Rightarrow> exn + node"

section \<open>The messages\<close>

text \<open>The string literals of \<open>main.py\<close>; U+00E9 is e acute, U+00C0 is A grave.\<close>

definition produit_non_trouve :: ustr where
  "produit_non_trouve = lit ''Produit non trouv'' @ [0xE9]"

definition a_verifier :: ustr where
  "a_verifier = 0xC0 # lit '' v'' @ 0xE9 # lit ''rifier''"

definition timeout_luxior :: ustr where
  "timeout_luxior = lit ''Timeout - Le serveur Luxior ne r'' @ 0xE9 # lit ''pond pas''"

definition timeout_ami3f :: ustr where
  "timeout_ami3f = lit ''Timeout - Le serveur AMI 3F ne r'' @ 0xE9 # lit ''pond pas''"

definition reference_obligatoire :: ustr where
  "reference_obligatoire = lit ''La r'' @ 0xE9 # lit ''f'' @ 0xE9 # lit ''rence est obligatoire''"

definition fournisseur_non_supporte :: ustr where
  "fournisseur_non_supporte =
     lit ''Fournisseur non support'' @ 0xE9 # lit ''. Utilisez '' @ 39 # lit ''luxior'' @
     39 # lit '' ou '' @ 39 # lit ''ami3f'' @ [39]"

section \<open>The price\<close>

text \<open>
  Lines 96 to 103 of \<open>scrape_luxior\<close>, which lines 170 to 176 of \<open>scrape_ami3f\<close>
  repeat: \<open>prix\<close> stays \<open>None\<close> when \<open>prix_text\<close> is \<open>None\<close> or empty, and when
  \<open>float\<close> raises \<open>ValueError\<close>.
\<close>

definition prix_clean :: "ustr \<Rightarrow> ustr" where
  "prix_clean prix_text = replace_char 44 46 (re_sub_class not_digit_comma_period [] prix_text)"

definition parse_prix :: "ustr option \<Rightarrow> double option" where
  "parse_prix prix_text =
     (case prix_text of
        None \<Rightarrow> None
      | Some t \<Rightarrow>
          if t = [] then None
          else (case float (prix_clean t) of Inl ValueError \<Rightarrow> None | Inr x \<Rightarrow> Some x))"

text \<open>\<open>element.text.strip() if element else otherwise\<close>, and the same with \<open>None\<close>.\<close>

definition text_or :: "node option \<Rightarrow> ustr \<Rightarrow> ustr" where
  "text_or element otherwise =
     (case element of None \<Rightarrow> otherwise | Some el \<Rightarrow> strip (get_text el))"

definition text_or_None :: "node option \<Rightarrow> ustr option" where
  "text_or_None element =
     (case element of None \<Rightarrow> None | Some el \<Rightarrow> Some (strip (get_text el)))"

section \<open>scrape_luxior\<close>

definition luxior_search_url :: "ustr \<Rightarrow> ustr" where
  "luxior_search_url ref = lit ''https://www.luxior.fr/catalogsearch/result/?q='' @ ref"

definition luxior_designation :: "node \<Rightarrow> ustr" where
  "luxior_designation product_item =
     text_or (find_tag product_item [lit ''a''] (ClassStr (lit ''product-item-link''))) (lit ''N/A'')"

definition luxior_prix_text :: "node \<Rightarrow> ustr option" where
  "luxior_prix_text product_item =
     text_or_None (find_tag product_item [lit ''span''] (ClassStr (lit ''price'')))"

definition luxior_disponibilite :: "node \<Rightarrow> ustr" where
  "luxior_disponibilite product_item =
     text_or (find_tag product_item [lit ''div''] (ClassStr (lit ''stock''))) a_verifier"

text \<open>Lines 88 to 115: the record built from a product block that was found.\<close>

definition luxior_produit :: "ustr \<Rightarrow> node \<Rightarrow> ProduitResponse" where
  "luxior_produit ref product_item =
     \<lparr>reference = ref, fournisseur = lit ''luxior'',
      prix = parse_prix (luxior_prix_text product_item),
      designation = Some (luxior_designation product_item),
      disponibilite = Some (luxior_disponibilite product_item),
      erreur = None\<rparr>"

definition luxior_erreur :: "ustr \<Rightarrow> ustr \<Rightarrow> ProduitResponse" where
  "luxior_erreur ref message =
     \<lparr>reference = ref, fournisseur = lit ''luxior'', prix = None, designation = None,
      disponibilite = None, erreur = Some message\<rparr>"

text \<open>
  The body of the \<open>try\<close> statement, lines 62 to 115. The URL of line 62 is not used.
  A \<open>Tag\<close> is always true in \<open>if not product_item\<close>, so the test is for \<open>None\<close>.
\<close>

definition scrape_luxior_try :: "env \<Rightarrow> ustr \<Rightarrow> exn + ProduitResponse" where
  "scrape_luxior_try e ref =
     (case client_get e (luxior_search_url ref) of
        Inl x \<Rightarrow> Inl x
      | Inr response \<Rightarrow>
          if status_code response \<noteq> 200
          then Inr (luxior_erreur ref (lit ''Erreur HTTP '' @ str_int (status_code response)))
          else (case BeautifulSoup e (response_text response) of
                  Inl x \<Rightarrow> Inl x
                | Inr soup \<Rightarrow>
                    (case find_tag soup [lit ''div''] (ClassStr (lit ''product-item-info'')) of
                       None \<Rightarrow> Inr (luxior_erreur ref produit_non_trouve)
                     | Some product_item \<Rightarrow> Inr (luxior_produit ref product_item))))"

text \<open>The two \<open>except\<close> clauses, lines 117 to 128.\<close>

definition scrape_luxior :: "env \<Rightarrow> ustr \<Rightarrow> exn + ProduitResponse" where
  "scrape_luxior e ref =
     (case scrape_luxior_try e ref of
        Inr r \<Rightarrow> Inr r
      | Inl TimeoutException \<Rightarrow> Inr (luxior_erreur ref timeout_luxior)
      | Inl (OtherException details) \<Rightarrow> Inr (luxior_erreur ref (lit ''Erreur: '' @ details))
      | Inl BaseExceptionOnly \<Rightarrow> Inl BaseExceptionOnly)"

section \<open>scrape_ami3f\<close>

definition ami3f_search_url :: "ustr \<Rightarrow> ustr" where
  "ami3f_search_url ref = lit ''https://www.ami3f.com/recherche?q='' @ ref"

definition ami3f_designation :: "node \<Rightarrow> ustr" where
  "ami3f_designation product_card =
     text_or (find_tag product_card [lit ''h2'', lit ''h3'', lit ''a''] (ClassRe re_name)) (lit ''N/A'')"

definition ami3f_prix_text :: "node \<Rightarrow> ustr option" where
  "ami3f_prix_text product_card =
     text_or_None (find_tag product_card [lit ''span'', lit ''div''] (ClassRe re_price))"

definition ami3f_disponibilite :: "node \<Rightarrow> ustr" where
  "ami3f_disponibilite product_card =
     text_or (find_tag product_card [lit ''span'', lit ''div''] (ClassRe re_stock)) a_verifier"

definition ami3f_produit :: "ustr \<Rightarrow> node \<Rightarrow> ProduitResponse" where
  "ami3f_produit ref product_card =
     \<lparr>reference = ref, fournisseur = lit ''ami3f'',
      prix = parse_prix (ami3f_prix_text product_card),
      designation = Some (ami3f_designation product_card),
      disponibilite = Some (ami3f_disponibilite product_card),
      erreur = None\<rparr>"

definition ami3f_erreur :: "ustr \<Rightarrow> ustr \<Rightarrow> ProduitResponse" where
  "ami3f_erreur ref message =
     \<lparr>reference = ref, fournisseur = lit ''ami3f'', prix = None, designation = None,
      disponibilite = None, erreur = Some message\<rparr>"

text \<open>Lines 149 to 153: the product card, and the other structure when there is none.\<close>

definition ami3f_product_card :: "node \<Rightarrow> node option" where
  "ami3f_product_card soup =
     (case find_tag soup [lit ''div''] (ClassStr (lit ''product-card'')) of
        Some product_card \<Rightarrow> Some product_card
      | None \<Rightarrow> find_tag soup [lit ''article''] (ClassStr (lit ''product'')))"

definition scrape_ami3f_try :: "env \<Rightarrow> ustr \<Rightarrow> exn + ProduitResponse" where
  "scrape_ami3f_try e ref =
     (case client_get e (ami3f_search_url ref) of
        Inl x \<Rightarrow> Inl x
      | Inr response \<Rightarrow>
          if status_code response \<noteq> 200
          then Inr (ami3f_erreur ref (lit ''Erreur HTTP '' @ str_int (status_code response)))
          else (case BeautifulSoup e (response_text response) of
                  Inl x \<Rightarrow> Inl x
                | Inr soup \<Rightarrow>
                    (case ami3f_product_card soup of
                       None \<Rightarrow> Inr (ami3f_erreur ref produit_non_trouve)
                     | Some product_card \<Rightarrow> Inr (ami3f_produit ref product_card))))"

definition scrape_ami3f :: "env \<Rightarrow> ustr \<Rightarrow> exn + ProduitResponse" where
  "scrape_ami3f e ref =
     (case scrape_ami3f_try e ref of
        Inr r \<Rightarrow> Inr r
      | Inl TimeoutException \<Rightarrow> Inr (ami3f_erreur ref timeout_ami3f)
      | Inl (OtherException details) \<Rightarrow> Inr (ami3f_erreur ref (lit ''Erreur: '' @ details))
      | Inl BaseExceptionOnly \<Rightarrow> Inl BaseExceptionOnly)"

section \<open>recherche_produit\<close>

text \<open>
  The dispatcher raises \<open>HTTPException(status_code, detail)\<close> itself; whatever an adapter
  lets through goes on to the caller. \<open>not s\<close> is true of the empty string only.
\<close>

datatype raised = HTTPException int ustr | Propagated exn

definition await :: "exn + ProduitResponse \<Rightarrow> raised + ProduitResponse" where
  "await r = (case r of Inl x \<Rightarrow> Inl (Propagated x) | Inr v \<Rightarrow> Inr v)"

definition recherche_produit :: "env \<Rightarrow> ProduitRequest \<Rightarrow> raised + ProduitResponse" where
  "recherche_produit e produit =
     (if req_reference produit = [] \<or> strip (req_reference produit) = []
      then Inl (HTTPException 400 reference_obligatoire)
      else (let f = lower (req_fournisseur produit) in
            if f = lit ''luxior'' then await (scrape_luxior e (req_reference produit))
            else if f = lit ''ami3f'' then await (scrape_ami3f e (req_reference produit))
            else Inl (HTTPException 400 fournisseur_non_supporte)))"

section \<open>What a lookup meets upstream\<close>

text \<open>
  The two library calls of a lookup at one URL, in the order of the adapters: the
  request, then, on status 200 only, the parser. \<open>upstream_raises\<close> is the exception
  that they raise, if any; \<open>soup_of\<close> is the parsed document, when the lookup gets
  that far.
\<close>

definition upstream_raises :: "env \<Rightarrow> ustr \<Rightarrow> exn option" where
  "upstream_raises e url =
     (case client_get e url of
        Inl x \<Rightarrow> Some x
      | Inr response \<Rightarrow>
          if status_code response \<noteq> 200 then None
          else (case BeautifulSoup e (response_text response) of
                  Inl x \<Rightarrow> Some x
                | Inr soup \<Rightarrow> None))"

definition soup_of :: "env \<Rightarrow> ustr \<Rightarrow> node option" where
  "soup_of e url =
     (case client_get e url of
        Inl x \<Rightarrow> None
      | Inr response \<Rightarrow>
          if status_code response \<noteq> 200 then None
          else (case BeautifulSoup e (response_text response) of
                  Inl x \<Rightarrow> None
                | Inr soup \<Rightarrow> Some soup))"

section \<open>The words of the specification\<close>





text \<open>
  The URL-escaped form of a reference: every code point that is not unreserved (a
  letter, a digit, \<open>-\<close>, \<open>.\<close>, \<open>_\<close>, \<open>~\<close>) is replaced by the percent-encoded bytes of
  its UTF-8 encoding, as \<open>urllib.parse.quote(s, safe='')\<close> does.
\<close>

definition hex_digit :: "nat \<Rightarrow> nat" where
  "hex_digit d = (if d < 10 then 48 + d else 55 + d)"

definition percent :: "nat \<Rightarrow> ustr" where
  "percent b = [37, hex_digit (b div 16), hex_digit (b mod 16)]"

definition utf8 :: "nat \<Rightarrow> nat list" where
  "utf8 c =
     (if c < 0x80 then [c]
      else if c < 0x800 then [0xC0 + c div 64, 0x80 + c mod 64]
      else if c < 0x10000 then [0xE0 + c div 4096, 0x80 + c div 64 mod 64, 0x80 + c mod 64]
      else [0xF0 + c div 262144, 0x80 + c div 4096 mod 64, 0x80 + c div 64 mod 64,
            0x80 + c mod 64])"

definition unreserved :: "nat \<Rightarrow> bool" where
  "unreserved c \<longleftrightarrow>
     (48 \<le> c \<and> c \<le> 57) \<or> (65 \<le> c \<and> c \<le> 90) \<or> (97 \<le> c \<and> c \<le> 122) \<or>
     c = 45 \<or> c = 46 \<or> c = 95 \<or> c = 126"

definition spec_url_escape :: "ustr \<Rightarrow> ustr" where
  "spec_url_escape s =
     concat (map (\<lambda>c. if unreserved c then [c] else concat (map percent (utf8 c))) s)"

text \<open>
  The class-name test of the specification for the designation: the class contains
  \<open>title\<close> or \<open>name\<close>, in any letter case.
\<close>

fun starts_with :: "ustr \<Rightarrow> ustr \<Rightarrow> bool" where
  "starts_with [] s = True"
| "starts_with (p # ps) [] = False"
| "starts_with (p # ps) (c # cs) = (p = c \<and> starts_with ps cs)"

fun contains :: "ustr \<Rightarrow> ustr \<Rightarrow> bool" where
  "contains sub [] = (sub = [])"
| "contains sub (c # cs) = (starts_with sub (c # cs) \<or> contains sub cs)"

definition spec_designation_class :: "ustr \<Rightarrow> bool" where
  "spec_designation_class cls \<longleftrightarrow>
     contains (lit ''title'') (lower cls) \<or> contains (lit ''name'') (lower cls)"

section \<open>Example pages and servers\<close>

text \<open>
  \<open>env_of g b\<close> is a server that answers \<open>g\<close> to every request and a parser that
  returns \<open>b\<close> for every text. \<open>ok\<close> is a response with status 200.
\<close>

definition env_of :: "exn + response \<Rightarrow> exn + node \<Rightarrow> env" where
  "env_of g b = \<lparr>client_get = (\<lambda>url. g), BeautifulSoup = (\<lambda>t. b)\<rparr>"

definition ok :: "exn + response" where
  "ok = Inr \<lparr>status_code = 200, response_text = lit ''<html>''\<rparr>"

definition status :: "int \<Rightarrow> exn + response" where
  "status n = Inr \<lparr>status_code = n, response_text = []\<rparr>"

definition document :: "node list \<Rightarrow> node" where
  "document kids = Tag (lit ''[document]'') [] kids"

text \<open>A page without any product block.\<close>

definition page_empty :: node where
  "page_empty = document [Tag (lit ''p'') [lit ''msg''] [NavigableString (lit ''Aucun'')]]"

text \<open>A Luxior result whose price reads \<open>Contact us\<close>.\<close>

definition item_contact :: node where
  "item_contact =
     Tag (lit ''div'') [lit ''product-item-info'']
       [Tag (lit ''a'') [lit ''product-item-link''] [NavigableString (lit '' Lampe LED '')],
        Tag (lit ''span'') [lit ''price''] [NavigableString (lit ''Contact us'')],
        Tag (lit ''div'') [lit ''stock''] [NavigableString (lit ''En stock'')]]"

definition page_contact :: node where
  "page_contact = document [Tag (lit ''div'') [lit ''results''] [item_contact]]"

text \<open>The price example of the specification: \<open>1 234,56\<close>, a space and the euro sign.\<close>

definition prix_exemple :: ustr where
  "prix_exemple = lit ''1 234,56 '' @ [0x20AC]"

text \<open>An AMI 3F product card with a title and that price, and no stock element.\<close>

definition card_prix :: node where
  "card_prix =
     Tag (lit ''div'') [lit ''product-card'']
       [Tag (lit ''h2'') [lit ''product-title''] [NavigableString (lit ''Vanne 3F'')],
        Tag (lit ''span'') [lit ''price''] [NavigableString prix_exemple]]"

definition page_prix :: node where
  "page_prix = document [card_prix]"

text \<open>An AMI 3F page of the other structure, the article coming before a late card.\<close>

definition article_produit :: node where
  "article_produit =
     Tag (lit ''article'') [lit ''product'']
       [Tag (lit ''a'') [lit ''name''] [NavigableString (lit ''Joint'')]]"

definition page_article :: node where
  "page_article = document [article_produit]"

definition page_article_then_card :: node where
  "page_article_then_card = document [article_produit, card_prix]"

text \<open>An AMI 3F card whose only heading has the class \<open>Product-Title\<close>.\<close>

definition card_majuscule :: node where
  "card_majuscule =
     Tag (lit ''div'') [lit ''product-card'']
       [Tag (lit ''h2'') [lit ''Product-Title''] [NavigableString (lit ''Lampe'')]]"

definition page_majuscule :: node where
  "page_majuscule = document [card_majuscule]"

text \<open>A server that knows one URL and times out on every other.\<close>

definition env_luxior_only :: env where
  "env_luxior_only =
     \<lparr>client_get = (\<lambda>url. if url = lit ''https://www.luxior.fr/catalogsearch/result/?q=a b&c#d''
                             then status 404 else Inl TimeoutException),
      BeautifulSoup = (\<lambda>t. Inr page_empty)\<rparr>"

section \<open>Facts about the library model\<close>

lemmas fixture_defs = env_of_def ok_def status_def document_def page_empty_def item_contact_def
  page_contact_def card_prix_def page_prix_def article_produit_def page_article_def
  page_article_then_card_def card_majuscule_def page_majuscule_def

text \<open>Below the second block of digits the table has the ASCII digits only.\<close>

lemma decimal_low:
  "c < 0x660 \<Longrightarrow> decimal c = (if 48 \<le> c \<and> c < 58 then Some (c - 48) else None)"
  by (simp add: decimal_def nd_zeros_def)


lemma re_sub_class_empty: "re_sub_class cls [] s = filter (\<lambda>c. \<not> cls c) s"
  by (induction s) (simp_all add: re_sub_class_def)

lemma prix_clean_eq:
  "prix_clean t =
     map (\<lambda>c. if c = 44 then 46 else c) (filter (\<lambda>c. isdecimal c \<or> c = 44 \<or> c = 46) t)"
  by (simp add: prix_clean_def replace_char_def re_sub_class_empty not_digit_comma_period_def)

text \<open>The clean-up leaves decimal digits and periods only: the strings \<open>float\<close> is modelled on.\<close>

lemma prix_clean_alphabet: "c \<in> set (prix_clean t) \<Longrightarrow> isdecimal c \<or> c = 46"
  by (auto simp: prix_clean_eq)



section \<open>Facts about the adapters\<close>

text \<open>The \<open>try\<close> body raises exactly what the library calls of the lookup raise.\<close>

lemma scrape_luxior_try_raises:
  "scrape_luxior_try e ref = Inl x \<longleftrightarrow> upstream_raises e (luxior_search_url ref) = Some x"
  by (simp add: scrape_luxior_try_def upstream_raises_def split: sum.splits option.splits)

lemma scrape_ami3f_try_raises:
  "scrape_ami3f_try e ref = Inl x \<longleftrightarrow> upstream_raises e (ami3f_search_url ref) = Some x"
  by (simp add: scrape_ami3f_try_def upstream_raises_def split: sum.splits option.splits)

lemma scrape_luxior_caught:
  "(upstream_raises e (luxior_search_url ref) = Some TimeoutException \<longrightarrow>
      scrape_luxior e ref = Inr (luxior_erreur ref timeout_luxior)) \<and>
   (upstream_raises e (luxior_search_url ref) = Some (OtherException d) \<longrightarrow>
      scrape_luxior e ref = Inr (luxior_erreur ref (lit ''Erreur: '' @ d))) \<and>
   (upstream_raises e (luxior_search_url ref) \<noteq> Some BaseExceptionOnly \<longrightarrow>
      (\<exists>r. scrape_luxior e ref = Inr r))"
  by (auto simp: scrape_luxior_def scrape_luxior_try_raises [symmetric]
      split: sum.splits exn.splits)

lemma scrape_ami3f_caught:
  "(upstream_raises e (ami3f_search_url ref) = Some TimeoutException \<longrightarrow>
      scrape_ami3f e ref = Inr (ami3f_erreur ref timeout_ami3f)) \<and>
   (upstream_raises e (ami3f_search_url ref) = Some (OtherException d) \<longrightarrow>
      scrape_ami3f e ref = Inr (ami3f_erreur ref (lit ''Erreur: '' @ d))) \<and>
   (upstream_raises e (ami3f_search_url ref) \<noteq> Some BaseExceptionOnly \<longrightarrow>
      (\<exists>r. scrape_ami3f e ref = Inr r))"
  by (auto simp: scrape_ami3f_def scrape_ami3f_try_raises [symmetric]
      split: sum.splits exn.splits)

section \<open>The claims\<close>

subsection \<open>C1: an adapter catches what the lookup raises\<close>

text \<open>
  Claim C1, as amended. Whatever exception derived from \<open>Exception\<close> the request or the
  parser raises, \<open>scrape_luxior\<close> and \<open>scrape_ami3f\<close> return a record and raise nothing.
  On a request time-out the error field is
  \<open>"Timeout - Le serveur Luxior ne repond pas"\<close> for Luxior and
  \<open>"Timeout - Le serveur AMI 3F ne repond pas"\<close> for AMI 3F (the first \<open>e\<close> of
  \<open>repond\<close> being U+00E9, e acute); on any other exception it is \<open>"Erreur: "\<close> followed by the details
  \<open>str(e)\<close>. The other fields of such a record are absent.
\<close>

theorem adapters_catch_every_Exception:
  "(upstream_raises e (luxior_search_url ref) = Some TimeoutException \<longrightarrow>
      scrape_luxior e ref = Inr (luxior_erreur ref timeout_luxior)) \<and>
   (upstream_raises e (luxior_search_url ref) = Some (OtherException d) \<longrightarrow>
      scrape_luxior e ref = Inr (luxior_erreur ref (lit ''Erreur: '' @ d))) \<and>
   (upstream_raises e (luxior_search_url ref) \<noteq> Some BaseExceptionOnly \<longrightarrow>
      (\<exists>r. scrape_luxior e ref = Inr r)) \<and>
   (upstream_raises e (ami3f_search_url ref) = Some TimeoutException \<longrightarrow>
      scrape_ami3f e ref = Inr (ami3f_erreur ref timeout_ami3f)) \<and>
   (upstream_raises e (ami3f_search_url ref) = Some (OtherException d) \<longrightarrow>
      scrape_ami3f e ref = Inr (ami3f_erreur ref (lit ''Erreur: '' @ d))) \<and>
   (upstream_raises e (ami3f_search_url ref) \<noteq> Some BaseExceptionOnly \<longrightarrow>
      (\<exists>r. scrape_ami3f e ref = Inr r))"
  using scrape_luxior_caught [of e ref d] scrape_ami3f_caught [of e ref d] by blast

text \<open>A time-out at Luxior, and a parser that fails on an AMI 3F page.\<close>

theorem adapters_catch_every_Exception_witness:
  "scrape_luxior (env_of (Inl TimeoutException) (Inr page_empty)) (lit ''REF-1'')
     = Inr (luxior_erreur (lit ''REF-1'') timeout_luxior) \<and>
   scrape_ami3f (env_of ok (Inl (OtherException (lit ''bad markup'')))) (lit ''REF-1'')
     = Inr (ami3f_erreur (lit ''REF-1'') (lit ''Erreur: bad markup''))"
proof -
  have 1: "upstream_raises (env_of (Inl TimeoutException) (Inr page_empty))
             (luxior_search_url (lit ''REF-1'')) = Some TimeoutException"
    by (simp add: upstream_raises_def env_of_def)
  have 2: "upstream_raises (env_of ok (Inl (OtherException (lit ''bad markup''))))
             (ami3f_search_url (lit ''REF-1'')) = Some (OtherException (lit ''bad markup''))"
    by (simp add: upstream_raises_def env_of_def ok_def)
  from 1 2 show ?thesis
    using adapters_catch_every_Exception
      [of "env_of (Inl TimeoutException) (Inr page_empty)" "lit ''REF-1''" "lit ''bad markup''"]
      adapters_catch_every_Exception
      [of "env_of ok (Inl (OtherException (lit ''bad markup'')))" "lit ''REF-1''"
          "lit ''bad markup''"]
    by (simp add: lit_def)
qed

text \<open>
  Claim C1 as the specification words it fails: on a time-out the error field of the
  Luxior record is the French message of line 121, not
  \<open>"Timeout: the supplier server is not responding"\<close>.
\<close>

theorem timeout_message_counterexample:
  "scrape_luxior (env_of (Inl TimeoutException) (Inr page_empty)) (lit ''REF-1'')
     = Inr (luxior_erreur (lit ''REF-1'') timeout_luxior) \<and>
   erreur (luxior_erreur (lit ''REF-1'') timeout_luxior)
     \<noteq> Some (lit ''Timeout: the supplier server is not responding'')"
  by (simp add: scrape_luxior_def scrape_luxior_try_def env_of_def luxior_erreur_def
      timeout_luxior_def lit_def)

text \<open>What an adapter returns on a status other than 200, and on a parsed page.\<close>

lemma scrape_luxior_status:
  "client_get e (luxior_search_url ref) = Inr resp \<Longrightarrow> status_code resp \<noteq> 200 \<Longrightarrow>
   scrape_luxior e ref =
     Inr (luxior_erreur ref (lit ''Erreur HTTP '' @ str_int (status_code resp)))"
  by (simp add: scrape_luxior_def scrape_luxior_try_def)

lemma scrape_ami3f_status:
  "client_get e (ami3f_search_url ref) = Inr resp \<Longrightarrow> status_code resp \<noteq> 200 \<Longrightarrow>
   scrape_ami3f e ref =
     Inr (ami3f_erreur ref (lit ''Erreur HTTP '' @ str_int (status_code resp)))"
  by (simp add: scrape_ami3f_def scrape_ami3f_try_def)

lemma scrape_luxior_soup:
  "soup_of e (luxior_search_url ref) = Some soup \<Longrightarrow>
   scrape_luxior e ref =
     (case find_tag soup [lit ''div''] (ClassStr (lit ''product-item-info'')) of
        None \<Rightarrow> Inr (luxior_erreur ref produit_non_trouve)
      | Some product_item \<Rightarrow> Inr (luxior_produit ref product_item))"
  by (auto simp: soup_of_def scrape_luxior_def scrape_luxior_try_def
      split: sum.splits if_splits option.splits)

lemma scrape_ami3f_soup:
  "soup_of e (ami3f_search_url ref) = Some soup \<Longrightarrow>
   scrape_ami3f e ref =
     (case ami3f_product_card soup of
        None \<Rightarrow> Inr (ami3f_erreur ref produit_non_trouve)
      | Some product_card \<Rightarrow> Inr (ami3f_produit ref product_card))"
  by (auto simp: soup_of_def scrape_ami3f_def scrape_ami3f_try_def
      split: sum.splits if_splits option.splits)

text \<open>
  Every record that an adapter returns is an error record, built when no product block
  was found, or the record of a product block.
\<close>

lemma scrape_luxior_shapes:
  "scrape_luxior e ref = Inr r \<Longrightarrow>
   (\<exists>m. r = luxior_erreur ref m \<and>
      (\<forall>soup c. soup_of e (luxior_search_url ref) = Some soup \<longrightarrow>
         find_tag soup [lit ''div''] (ClassStr (lit ''product-item-info'')) \<noteq> Some c)) \<or>
   (\<exists>c. r = luxior_produit ref c)"
  by (auto simp: scrape_luxior_def scrape_luxior_try_def soup_of_def
      split: sum.splits if_splits option.splits exn.splits)

lemma scrape_ami3f_shapes:
  "scrape_ami3f e ref = Inr r \<Longrightarrow>
   (\<exists>m. r = ami3f_erreur ref m \<and>
      (\<forall>soup c. soup_of e (ami3f_search_url ref) = Some soup \<longrightarrow>
         ami3f_product_card soup \<noteq> Some c)) \<or>
   (\<exists>c. r = ami3f_produit ref c)"
  by (auto simp: scrape_ami3f_def scrape_ami3f_try_def soup_of_def
      split: sum.splits if_splits option.splits exn.splits)

subsection \<open>C3: a status other than 200\<close>

text \<open>
  Claim C3, as amended. For every response whose status is not 200, each adapter
  returns a record whose error field is \<open>"Erreur HTTP "\<close> followed by the status in
  decimal (\<open>"Erreur HTTP 404"\<close> for status 404), and whose price, designation and
  availability are absent.
\<close>

theorem http_status_error_record:
  "(client_get e (luxior_search_url ref) = Inr resp \<and> status_code resp \<noteq> 200 \<longrightarrow>
      scrape_luxior e ref =
        Inr \<lparr>reference = ref, fournisseur = lit ''luxior'', prix = None, designation = None,
             disponibilite = None,
             erreur = Some (lit ''Erreur HTTP '' @ str_int (status_code resp))\<rparr>) \<and>
   (client_get e (ami3f_search_url ref) = Inr resp \<and> status_code resp \<noteq> 200 \<longrightarrow>
      scrape_ami3f e ref =
        Inr \<lparr>reference = ref, fournisseur = lit ''ami3f'', prix = None, designation = None,
             disponibilite = None,
             erreur = Some (lit ''Erreur HTTP '' @ str_int (status_code resp))\<rparr>)"
  using scrape_luxior_status [of e ref resp] scrape_ami3f_status [of e ref resp]
  by (simp add: luxior_erreur_def ami3f_erreur_def)

text \<open>Status 404 at Luxior and status 503 at AMI 3F.\<close>

theorem http_status_error_record_witness:
  "scrape_luxior (env_of (status 404) (Inr page_empty)) (lit ''REF-1'') =
     Inr \<lparr>reference = lit ''REF-1'', fournisseur = lit ''luxior'', prix = None,
          designation = None, disponibilite = None, erreur = Some (lit ''Erreur HTTP 404'')\<rparr> \<and>
   scrape_ami3f (env_of (status 503) (Inr page_empty)) (lit ''REF-1'') =
     Inr \<lparr>reference = lit ''REF-1'', fournisseur = lit ''ami3f'', prix = None,
          designation = None, disponibilite = None, erreur = Some (lit ''Erreur HTTP 503'')\<rparr>"
  using http_status_error_record
      [of "env_of (status 404) (Inr page_empty)" "lit ''REF-1''"
          "\<lparr>status_code = 404, response_text = []\<rparr>"]
    http_status_error_record
      [of "env_of (status 503) (Inr page_empty)" "lit ''REF-1''"
          "\<lparr>status_code = 503, response_text = []\<rparr>"]
  by (simp add: env_of_def status_def str_int_def digits10.simps lit_def)

text \<open>
  Claim C3 as the specification words it fails: for status 404 the error field is
  \<open>"Erreur HTTP 404"\<close>, not \<open>"HTTP error 404"\<close>.
\<close>

theorem http_status_message_counterexample:
  "scrape_luxior (env_of (status 404) (Inr page_empty)) (lit ''REF-1'') =
     Inr (luxior_erreur (lit ''REF-1'') (lit ''Erreur HTTP 404'')) \<and>
   erreur (luxior_erreur (lit ''REF-1'') (lit ''Erreur HTTP 404''))
     \<noteq> Some (lit ''HTTP error 404'')"
  by (simp add: scrape_luxior_def scrape_luxior_try_def env_of_def status_def luxior_erreur_def
      str_int_def digits10.simps lit_def)

subsection \<open>C4: no product block\<close>

lemmas find_defs = find_tag_def class_matches_def lit_def

lemma soup_of_env_of_ok: "soup_of (env_of ok (Inr soup)) url = Some soup"
  by (simp add: soup_of_def env_of_def ok_def)

text \<open>
  Claim C4, as amended. For every page that came with status 200 and was parsed: when
  no product block matches, the adapter returns a record whose error field is
  \<open>"Produit non trouve"\<close> (the last letter being U+00E9, e acute). \<open>scrape_luxior\<close>
  looks for the first \<open>div\<close> of class \<open>product-item-info\<close>. \<open>scrape_ami3f\<close> looks
  for the first \<open>div\<close> of class \<open>product-card\<close> and, only when there is none, for the
  first \<open>article\<close> of class \<open>product\<close>; it builds its record from the first of the
  two that is found and reports the error only when both are missing.
\<close>

theorem not_found_after_both_selectors:
  "(soup_of e (luxior_search_url ref) = Some soup \<and>
    find_tag soup [lit ''div''] (ClassStr (lit ''product-item-info'')) = None \<longrightarrow>
      scrape_luxior e ref = Inr (luxior_erreur ref produit_non_trouve)) \<and>
   (soup_of e (ami3f_search_url ref) = Some soup \<longrightarrow>
      scrape_ami3f e ref =
        (case find_tag soup [lit ''div''] (ClassStr (lit ''product-card'')) of
           Some c \<Rightarrow> Inr (ami3f_produit ref c)
         | None \<Rightarrow>
             (case find_tag soup [lit ''article''] (ClassStr (lit ''product'')) of
                Some c \<Rightarrow> Inr (ami3f_produit ref c)
              | None \<Rightarrow> Inr (ami3f_erreur ref produit_non_trouve)))) \<and>
   erreur (luxior_erreur ref produit_non_trouve) = Some (lit ''Produit non trouv'' @ [0xE9]) \<and>
   erreur (ami3f_erreur ref produit_non_trouve) = Some (lit ''Produit non trouv'' @ [0xE9])"
  using scrape_luxior_soup [of e ref soup] scrape_ami3f_soup [of e ref soup]
  by (auto simp: ami3f_product_card_def luxior_erreur_def ami3f_erreur_def produit_non_trouve_def
      split: option.splits)

text \<open>The selectors on the example pages.\<close>

lemma find_empty_luxior:
  "find_tag page_empty [lit ''div''] (ClassStr (lit ''product-item-info'')) = None"
  by (simp add: find_defs fixture_defs)

lemma find_empty_card:
  "find_tag page_empty [lit ''div''] (ClassStr (lit ''product-card'')) = None"
  by (simp add: find_defs fixture_defs)

lemma find_empty_article:
  "find_tag page_empty [lit ''article''] (ClassStr (lit ''product'')) = None"
  by (simp add: find_defs fixture_defs)

lemma find_article_card:
  "find_tag page_article_then_card [lit ''div''] (ClassStr (lit ''product-card'')) = Some card_prix"
  by (simp add: find_defs fixture_defs)

lemma find_article_only_card:
  "find_tag page_article [lit ''div''] (ClassStr (lit ''product-card'')) = None"
  by (simp add: find_defs fixture_defs)

lemma find_article_only_article:
  "find_tag page_article [lit ''article''] (ClassStr (lit ''product'')) = Some article_produit"
  by (simp add: find_defs fixture_defs)

text \<open>
  A page without a block, a page with an \<open>article\<close> only, and a page where the
  \<open>article\<close> comes before the \<open>div\<close>: the \<open>div\<close> is taken.
\<close>

theorem not_found_after_both_selectors_witness:
  "scrape_luxior (env_of ok (Inr page_empty)) (lit ''REF-1'')
     = Inr (luxior_erreur (lit ''REF-1'') produit_non_trouve) \<and>
   scrape_ami3f (env_of ok (Inr page_empty)) (lit ''REF-1'')
     = Inr (ami3f_erreur (lit ''REF-1'') produit_non_trouve) \<and>
   scrape_ami3f (env_of ok (Inr page_article)) (lit ''REF-1'')
     = Inr (ami3f_produit (lit ''REF-1'') article_produit) \<and>
   scrape_ami3f (env_of ok (Inr page_article_then_card)) (lit ''REF-1'')
     = Inr (ami3f_produit (lit ''REF-1'') card_prix)"
  using not_found_after_both_selectors
      [of "env_of ok (Inr page_empty)" "lit ''REF-1''" page_empty]
    not_found_after_both_selectors
      [of "env_of ok (Inr page_article)" "lit ''REF-1''" page_article]
    not_found_after_both_selectors
      [of "env_of ok (Inr page_article_then_card)" "lit ''REF-1''" page_article_then_card]
  by (simp add: soup_of_env_of_ok find_empty_luxior find_empty_card find_empty_article
      find_article_card find_article_only_card find_article_only_article)

text \<open>
  Claim C4 as the specification words it fails: the error field is the French message
  of lines 85 and 159, not \<open>"Product not found"\<close>.
\<close>

theorem not_found_message_counterexample:
  "scrape_ami3f (env_of ok (Inr page_empty)) (lit ''REF-1'')
     = Inr (ami3f_erreur (lit ''REF-1'') produit_non_trouve) \<and>
   erreur (ami3f_erreur (lit ''REF-1'') produit_non_trouve) \<noteq> Some (lit ''Product not found'')"
proof -
  have "scrape_ami3f (env_of ok (Inr page_empty)) (lit ''REF-1'')
          = Inr (ami3f_erreur (lit ''REF-1'') produit_non_trouve)"
    using scrape_ami3f_soup [of "env_of ok (Inr page_empty)" "lit ''REF-1''" page_empty]
    by (simp add: soup_of_env_of_ok ami3f_product_card_def find_empty_card find_empty_article)
  moreover have "erreur (ami3f_erreur (lit ''REF-1'') produit_non_trouve)
          \<noteq> Some (lit ''Product not found'')"
    by (simp add: ami3f_erreur_def produit_non_trouve_def lit_def)
  ultimately show ?thesis by (rule conjI)
qed

subsection \<open>C6: a price that does not parse\<close>

lemma parse_prix_ValueError:
  "float (prix_clean t) = Inl ValueError \<Longrightarrow> parse_prix (Some t) = None"
  by (simp add: parse_prix_def)

text \<open>
  Claim C6. Whenever a product block was found and the clean-up of its price text does
  not parse (\<open>float\<close> raises \<open>ValueError\<close>, as for \<open>Contact us\<close>, where no digit is
  left), the adapter returns a record whose price is absent, whose error field is
  absent too, and whose designation and availability are the ones extracted from the
  block.
\<close>

theorem unparsable_price_is_absent:
  "(soup_of e (luxior_search_url ref) = Some soup \<and>
    find_tag soup [lit ''div''] (ClassStr (lit ''product-item-info'')) = Some c \<and>
    luxior_prix_text c = Some t \<and> float (prix_clean t) = Inl ValueError \<longrightarrow>
      scrape_luxior e ref =
        Inr \<lparr>reference = ref, fournisseur = lit ''luxior'', prix = None,
             designation = Some (luxior_designation c),
             disponibilite = Some (luxior_disponibilite c), erreur = None\<rparr>) \<and>
   (soup_of e (ami3f_search_url ref) = Some soup \<and>
    ami3f_product_card soup = Some c \<and>
    ami3f_prix_text c = Some t \<and> float (prix_clean t) = Inl ValueError \<longrightarrow>
      scrape_ami3f e ref =
        Inr \<lparr>reference = ref, fournisseur = lit ''ami3f'', prix = None,
             designation = Some (ami3f_designation c),
             disponibilite = Some (ami3f_disponibilite c), erreur = None\<rparr>)"
  using scrape_luxior_soup [of e ref soup] scrape_ami3f_soup [of e ref soup]
    parse_prix_ValueError [of t]
  by (simp add: luxior_produit_def ami3f_produit_def)

text \<open>The Luxior page whose price reads \<open>Contact us\<close>.\<close>

lemma find_contact: 
  "find_tag page_contact [lit ''div''] (ClassStr (lit ''product-item-info'')) = Some item_contact"
  by (simp add: find_defs fixture_defs)

lemma contact_prix_text: "luxior_prix_text item_contact = Some (lit ''Contact us'')"
  by (simp add: luxior_prix_text_def text_or_None_def find_defs item_contact_def
      strip_def lstrip_def rstrip_def isspace_def)

lemma contact_designation: "luxior_designation item_contact = lit ''Lampe LED''"
  by (simp add: luxior_designation_def text_or_def find_defs item_contact_def
      strip_def lstrip_def rstrip_def isspace_def)

lemma contact_disponibilite: "luxior_disponibilite item_contact = lit ''En stock''"
  by (simp add: luxior_disponibilite_def text_or_def find_defs item_contact_def
      strip_def lstrip_def rstrip_def isspace_def)

lemma contact_float: "float (prix_clean (lit ''Contact us'')) = Inl ValueError"
  by (simp add: prix_clean_eq lit_def isdecimal_def decimal_low float_def)

theorem unparsable_price_is_absent_witness:
  "scrape_luxior (env_of ok (Inr page_contact)) (lit ''REF-1'') =
     Inr \<lparr>reference = lit ''REF-1'', fournisseur = lit ''luxior'', prix = None,
          designation = Some (lit ''Lampe LED''),
          disponibilite = Some (lit ''En stock''), erreur = None\<rparr>"
  using unparsable_price_is_absent
      [of "env_of ok (Inr page_contact)" "lit ''REF-1''" page_contact item_contact
          "lit ''Contact us''"]
  by (simp add: soup_of_env_of_ok find_contact contact_prix_text contact_float
      contact_designation contact_disponibilite)

subsection \<open>C9: either an error or a payload\<close>

lemma luxior_payload:
  "scrape_luxior e ref = Inr r \<Longrightarrow>
     (erreur r \<noteq> None \<longrightarrow> prix r = None \<and> designation r = None \<and> disponibilite r = None) \<and>
     (\<forall>soup c. soup_of e (luxior_search_url ref) = Some soup \<and>
        find_tag soup [lit ''div''] (ClassStr (lit ''product-item-info'')) = Some c \<longrightarrow>
        erreur r = None)"
  using scrape_luxior_shapes [of e ref r]
  by (auto simp: luxior_erreur_def luxior_produit_def)

lemma ami3f_payload:
  "scrape_ami3f e ref = Inr r \<Longrightarrow>
     (erreur r \<noteq> None \<longrightarrow> prix r = None \<and> designation r = None \<and> disponibilite r = None) \<and>
     (\<forall>soup c. soup_of e (ami3f_search_url ref) = Some soup \<and>
        ami3f_product_card soup = Some c \<longrightarrow> erreur r = None)"
  using scrape_ami3f_shapes [of e ref r]
  by (auto simp: ami3f_erreur_def ami3f_produit_def)

text \<open>
  Claim C9. In every record that \<open>scrape_luxior\<close> or \<open>scrape_ami3f\<close> returns: if
  the error field is populated, then price, designation and availability are all
  absent; and if the lookup found a product block, then the error field is absent.
\<close>

theorem payload_exclusive:
  "(scrape_luxior e ref = Inr r \<longrightarrow>
      (erreur r \<noteq> None \<longrightarrow> prix r = None \<and> designation r = None \<and> disponibilite r = None) \<and>
      (\<forall>soup c. soup_of e (luxior_search_url ref) = Some soup \<and>
         find_tag soup [lit ''div''] (ClassStr (lit ''product-item-info'')) = Some c \<longrightarrow>
         erreur r = None)) \<and>
   (scrape_ami3f e ref = Inr r \<longrightarrow>
      (erreur r \<noteq> None \<longrightarrow> prix r = None \<and> designation r = None \<and> disponibilite r = None) \<and>
      (\<forall>soup c. soup_of e (ami3f_search_url ref) = Some soup \<and>
         ami3f_product_card soup = Some c \<longrightarrow> erreur r = None))"
  using luxior_payload [of e ref r] ami3f_payload [of e ref r] by blast

text \<open>An AMI 3F page with a product card, and a Luxior answer of status 404.\<close>

lemma find_prix_card:
  "find_tag page_prix [lit ''div''] (ClassStr (lit ''product-card'')) = Some card_prix"
  by (simp add: find_defs fixture_defs)

lemma card_prix_found: "ami3f_product_card page_prix = Some card_prix"
  by (simp add: ami3f_product_card_def find_prix_card)

lemma scrape_ami3f_page_prix:
  "scrape_ami3f (env_of ok (Inr page_prix)) ref = Inr (ami3f_produit ref card_prix)"
  using scrape_ami3f_soup [of "env_of ok (Inr page_prix)" ref page_prix]
  by (simp add: soup_of_env_of_ok card_prix_found)

lemma scrape_luxior_404:
  "scrape_luxior (env_of (status 404) (Inr page_empty)) ref
     = Inr (luxior_erreur ref (lit ''Erreur HTTP 404''))"
  using scrape_luxior_status
      [of "env_of (status 404) (Inr page_empty)" ref "\<lparr>status_code = 404, response_text = []\<rparr>"]
  by (simp add: env_of_def status_def str_int_def digits10.simps lit_def)

theorem payload_exclusive_witness:
  "scrape_luxior (env_of (status 404) (Inr page_empty)) (lit ''REF-1'')
     = Inr (luxior_erreur (lit ''REF-1'') (lit ''Erreur HTTP 404'')) \<and>
   erreur (luxior_erreur (lit ''REF-1'') (lit ''Erreur HTTP 404'')) \<noteq> None \<and>
   prix (luxior_erreur (lit ''REF-1'') (lit ''Erreur HTTP 404'')) = None \<and>
   designation (luxior_erreur (lit ''REF-1'') (lit ''Erreur HTTP 404'')) = None \<and>
   disponibilite (luxior_erreur (lit ''REF-1'') (lit ''Erreur HTTP 404'')) = None \<and>
   scrape_ami3f (env_of ok (Inr page_prix)) (lit ''REF-1'')
     = Inr (ami3f_produit (lit ''REF-1'') card_prix) \<and>
   soup_of (env_of ok (Inr page_prix)) (ami3f_search_url (lit ''REF-1'')) = Some page_prix \<and>
   ami3f_product_card page_prix = Some card_prix \<and>
   erreur (ami3f_produit (lit ''REF-1'') card_prix) = None"
proof -
  have e: "erreur (luxior_erreur (lit ''REF-1'') (lit ''Erreur HTTP 404'')) \<noteq> None"
    by (simp add: luxior_erreur_def)
  from e show ?thesis
    using payload_exclusive
      [of "env_of (status 404) (Inr page_empty)" "lit ''REF-1''"
          "luxior_erreur (lit ''REF-1'') (lit ''Erreur HTTP 404'')"]
      payload_exclusive
      [of "env_of ok (Inr page_prix)" "lit ''REF-1''" "ami3f_produit (lit ''REF-1'') card_prix"]
    by (simp add: scrape_luxior_404 scrape_ami3f_page_prix soup_of_env_of_ok card_prix_found)
qed

subsection \<open>C10: the reference and the supplier are echoed\<close>

text \<open>
  Claim C10. Every record that \<open>scrape_luxior\<close> returns, on whatever path, has the
  input reference unchanged in its reference field and \<open>"luxior"\<close> in its supplier
  field; \<open>scrape_ami3f\<close> likewise echoes the reference and sets the supplier to
  \<open>"ami3f"\<close>; and a record that \<open>recherche_produit\<close> returns is the record of one of
  the two adapters for the reference of the request, with these fields as the adapter
  set them.
\<close>

theorem echo_reference_and_supplier:
  "(scrape_luxior e ref = Inr r \<longrightarrow> reference r = ref \<and> fournisseur r = lit ''luxior'') \<and>
   (scrape_ami3f e ref = Inr r \<longrightarrow> reference r = ref \<and> fournisseur r = lit ''ami3f'') \<and>
   (recherche_produit e p = Inr r \<longrightarrow>
      reference r = req_reference p \<and> fournisseur r = lower (req_fournisseur p) \<and>
      (scrape_luxior e (req_reference p) = Inr r \<or> scrape_ami3f e (req_reference p) = Inr r))"
proof (intro conjI impI)
  assume "scrape_luxior e ref = Inr r"
  from scrape_luxior_shapes [OF this]
  show "reference r = ref" and "fournisseur r = lit ''luxior''"
    by (auto simp: luxior_erreur_def luxior_produit_def)
next
  assume "scrape_ami3f e ref = Inr r"
  from scrape_ami3f_shapes [OF this]
  show "reference r = ref" and "fournisseur r = lit ''ami3f''"
    by (auto simp: ami3f_erreur_def ami3f_produit_def)
next
  assume a: "recherche_produit e p = Inr r"
  then have d: "(lower (req_fournisseur p) = lit ''luxior'' \<and> scrape_luxior e (req_reference p) = Inr r)
      \<or> (lower (req_fournisseur p) = lit ''ami3f'' \<and> scrape_ami3f e (req_reference p) = Inr r)"
    by (auto simp: recherche_produit_def await_def Let_def split: if_splits sum.splits)
  from d show "scrape_luxior e (req_reference p) = Inr r \<or> scrape_ami3f e (req_reference p) = Inr r"
    by blast
  from d scrape_luxior_shapes [of e "req_reference p" r] scrape_ami3f_shapes [of e "req_reference p" r]
  show "reference r = req_reference p" and "fournisseur r = lower (req_fournisseur p)"
    by (auto simp: luxior_erreur_def luxior_produit_def ami3f_erreur_def ami3f_produit_def)
qed


text \<open>A request for \<open>AMI3F\<close> in capitals is served by \<open>scrape_ami3f\<close>.\<close>

lemma lower_AMI3F: "lower (lit ''AMI3F'') = lit ''ami3f''"
  by (simp add: lower_def lower_cp_def lit_def)

lemma recherche_AMI3F:
  "recherche_produit (env_of ok (Inr page_prix))
       \<lparr>req_reference = lit ''REF-1'', req_fournisseur = lit ''AMI3F''\<rparr>
     = Inr (ami3f_produit (lit ''REF-1'') card_prix)"
proof -
  have "strip (lit ''REF-1'') \<noteq> []"
    by (simp add: strip_def lstrip_def rstrip_def isspace_def lit_def)
  moreover have "lit ''REF-1'' \<noteq> []" by (simp add: lit_def)
  moreover have "lit ''ami3f'' \<noteq> lit ''luxior''" by (simp add: lit_def)
  ultimately show ?thesis
    by (simp add: recherche_produit_def lower_AMI3F await_def scrape_ami3f_page_prix)
qed

theorem echo_reference_and_supplier_witness:
  "recherche_produit (env_of ok (Inr page_prix))
       \<lparr>req_reference = lit ''REF-1'', req_fournisseur = lit ''AMI3F''\<rparr>
     = Inr (ami3f_produit (lit ''REF-1'') card_prix) \<and>
   reference (ami3f_produit (lit ''REF-1'') card_prix) = lit ''REF-1'' \<and>
   fournisseur (ami3f_produit (lit ''REF-1'') card_prix) = lit ''ami3f'' \<and>
   scrape_luxior (env_of (status 404) (Inr page_empty)) (lit ''REF-1'')
     = Inr (luxior_erreur (lit ''REF-1'') (lit ''Erreur HTTP 404'')) \<and>
   reference (luxior_erreur (lit ''REF-1'') (lit ''Erreur HTTP 404'')) = lit ''REF-1'' \<and>
   fournisseur (luxior_erreur (lit ''REF-1'') (lit ''Erreur HTTP 404'')) = lit ''luxior''"
  using echo_reference_and_supplier
      [of "env_of ok (Inr page_prix)" "lit ''REF-1''" "ami3f_produit (lit ''REF-1'') card_prix"
          "\<lparr>req_reference = lit ''REF-1'', req_fournisseur = lit ''AMI3F''\<rparr>"]
    echo_reference_and_supplier
      [of "env_of (status 404) (Inr page_empty)" "lit ''REF-1''"
          "luxior_erreur (lit ''REF-1'') (lit ''Erreur HTTP 404'')"
          "\<lparr>req_reference = lit ''REF-1'', req_fournisseur = lit ''AMI3F''\<rparr>"]
  by (simp add: recherche_AMI3F scrape_ami3f_page_prix scrape_luxior_404 lower_AMI3F)

subsection \<open>C2: when the dispatcher rejects\<close>










subsection \<open>C7: the search URL\<close>

text \<open>An adapter asks the server for its search URL and for nothing else.\<close>

lemma scrape_luxior_same_request:
  assumes a: "client_get e' (luxior_search_url ref) = client_get e (luxior_search_url ref)"
    and b: "BeautifulSoup e' = BeautifulSoup e"
  shows "scrape_luxior e' ref = scrape_luxior e ref"
proof -
  have "scrape_luxior_try e' ref = scrape_luxior_try e ref"
    unfolding scrape_luxior_try_def a b ..
  then show ?thesis by (simp add: scrape_luxior_def)
qed

lemma scrape_ami3f_same_request:
  assumes a: "client_get e' (ami3f_search_url ref) = client_get e (ami3f_search_url ref)"
    and b: "BeautifulSoup e' = BeautifulSoup e"
  shows "scrape_ami3f e' ref = scrape_ami3f e ref"
proof -
  have "scrape_ami3f_try e' ref = scrape_ami3f_try e ref"
    unfolding scrape_ami3f_try_def a b ..
  then show ?thesis by (simp add: scrape_ami3f_def)
qed

text \<open>
  Claim C7, as amended. For every reference, each adapter builds its search URL by
  appending the reference, as it is, to the search address of its supplier
  (\<open>https://www.luxior.fr/catalogsearch/result/?q=\<close> and
  \<open>https://www.ami3f.com/recherche?q=\<close>), and that URL is the one it requests; the
  adapter escapes nothing, so a space, \<open>&\<close> or \<open>#\<close> of the reference is in the
  string handed to the HTTP client.
\<close>

theorem search_url_embeds_reference_unescaped:
  "luxior_search_url ref = lit ''https://www.luxior.fr/catalogsearch/result/?q='' @ ref \<and>
   ami3f_search_url ref = lit ''https://www.ami3f.com/recherche?q='' @ ref \<and>
   (client_get e' (luxior_search_url ref) = client_get e (luxior_search_url ref) \<and>
    BeautifulSoup e' = BeautifulSoup e \<longrightarrow> scrape_luxior e' ref = scrape_luxior e ref) \<and>
   (client_get e' (ami3f_search_url ref) = client_get e (ami3f_search_url ref) \<and>
    BeautifulSoup e' = BeautifulSoup e \<longrightarrow> scrape_ami3f e' ref = scrape_ami3f e ref)"
  using scrape_luxior_same_request [of e' ref e] scrape_ami3f_same_request [of e' ref e]
  by (simp add: luxior_search_url_def ami3f_search_url_def)

text \<open>A server that answers at one URL only is asked at that URL.\<close>

theorem search_url_embeds_reference_unescaped_witness:
  "luxior_search_url (lit ''a b&c#d'') = lit ''https://www.luxior.fr/catalogsearch/result/?q=a b&c#d'' \<and>
   scrape_luxior env_luxior_only (lit ''a b&c#d'')
     = scrape_luxior (env_of (status 404) (Inr page_empty)) (lit ''a b&c#d'')"
proof -
  from search_url_embeds_reference_unescaped [of "lit ''a b&c#d''"]
  have u: "luxior_search_url (lit ''a b&c#d'')
             = lit ''https://www.luxior.fr/catalogsearch/result/?q=a b&c#d''"
    by (simp add: lit_def)
  have "client_get env_luxior_only (luxior_search_url (lit ''a b&c#d''))
          = client_get (env_of (status 404) (Inr page_empty)) (luxior_search_url (lit ''a b&c#d''))"
    unfolding u by (simp add: env_luxior_only_def env_of_def)
  moreover have "BeautifulSoup env_luxior_only = BeautifulSoup (env_of (status 404) (Inr page_empty))"
    by (simp add: env_luxior_only_def env_of_def)
  ultimately have "scrape_luxior env_luxior_only (lit ''a b&c#d'')
     = scrape_luxior (env_of (status 404) (Inr page_empty)) (lit ''a b&c#d'')"
    using search_url_embeds_reference_unescaped
      [of "lit ''a b&c#d''" env_luxior_only "env_of (status 404) (Inr page_empty)"]
    by blast
  with u show ?thesis by (rule conjI)
qed

lemma escape_exemple: "spec_url_escape (lit ''a b&c#d'') = lit ''a%20b%26c%23d''"
  by (simp add: spec_url_escape_def unreserved_def utf8_def percent_def hex_digit_def lit_def)

text \<open>
  Claim C7 as the specification words it fails: for the reference \<open>a b&c#d\<close> the URL
  ends in the reference itself, not in its escaped form \<open>a%20b%26c%23d\<close>.
\<close>

theorem search_url_not_escaped_counterexample:
  "luxior_search_url (lit ''a b&c#d'')
     = lit ''https://www.luxior.fr/catalogsearch/result/?q=a b&c#d'' \<and>
   spec_url_escape (lit ''a b&c#d'') = lit ''a%20b%26c%23d'' \<and>
   luxior_search_url (lit ''a b&c#d'')
     \<noteq> lit ''https://www.luxior.fr/catalogsearch/result/?q='' @ spec_url_escape (lit ''a b&c#d'') \<and>
   ami3f_search_url (lit ''a b&c#d'')
     \<noteq> lit ''https://www.ami3f.com/recherche?q='' @ spec_url_escape (lit ''a b&c#d'')"
  unfolding escape_exemple
  by (simp add: luxior_search_url_def ami3f_search_url_def lit_def)

subsection \<open>C8: the designation\<close>

text \<open>
  The matcher decides membership in the language of the pattern: \<open>re_search r s\<close>
  holds exactly when some substring of \<open>s\<close> is in \<open>lang r\<close>.
\<close>

lemma nullable_iff: "nullable r \<longleftrightarrow> [] \<in> lang r"
  by (induction r) (auto intro: star.star_Nil)

lemma star_Cons_split:
  assumes "x \<in> star L" and "x = c # w"
  shows "\<exists>u v. w = u @ v \<and> c # u \<in> L \<and> v \<in> star L"
  using assms
proof (induction arbitrary: w rule: star.induct)
  case star_Nil
  then show ?case by simp
next
  case (star_App u v)
  show ?case
  proof (cases u)
    case Nil
    with star_App show ?thesis by simp
  next
    case (Cons a u')
    with star_App.prems have "a = c" and "w = u' @ v" by simp_all
    with Cons star_App.hyps show ?thesis by blast
  qed
qed

lemma star_Cons_iff:
  "c # w \<in> star L \<longleftrightarrow> (\<exists>u v. w = u @ v \<and> c # u \<in> L \<and> v \<in> star L)"
proof
  assume "c # w \<in> star L"
  then show "\<exists>u v. w = u @ v \<and> c # u \<in> L \<and> v \<in> star L"
    by (rule star_Cons_split) simp
next
  assume "\<exists>u v. w = u @ v \<and> c # u \<in> L \<and> v \<in> star L"
  then obtain u v where "w = u @ v" "c # u \<in> L" "v \<in> star L" by blast
  then have "(c # u) @ v \<in> star L" by (intro star.star_App)
  with \<open>w = u @ v\<close> show "c # w \<in> star L" by simp
qed

lemma lang_deriv: "w \<in> lang (deriv c r) \<longleftrightarrow> c # w \<in> lang r"
proof (induction r arbitrary: w)
  case (Seq r s)
  have "c # w \<in> lang (Seq r s) \<longleftrightarrow>
          (\<exists>u v. w = u @ v \<and> c # u \<in> lang r \<and> v \<in> lang s) \<or> ([] \<in> lang r \<and> c # w \<in> lang s)"
    by (auto simp: Cons_eq_append_conv)
  with Seq show ?case
    by (auto simp: nullable_iff)
next
  case (Star r)
  then show ?case by (auto simp: star_Cons_iff)
qed auto

lemma match_here_iff: "match_here r s \<longleftrightarrow> (\<exists>p q. s = p @ q \<and> p \<in> lang r)"
proof (induction s arbitrary: r)
  case Nil
  then show ?case by (simp add: nullable_iff)
next
  case (Cons c cs)
  have "(\<exists>p q. c # cs = p @ q \<and> p \<in> lang r) \<longleftrightarrow>
          [] \<in> lang r \<or> (\<exists>p' q. cs = p' @ q \<and> c # p' \<in> lang r)"
    by (auto simp: Cons_eq_append_conv)
  with Cons show ?case by (simp add: nullable_iff lang_deriv)
qed

lemma re_search_iff: "re_search r s \<longleftrightarrow> (\<exists>a p q. s = a @ p @ q \<and> p \<in> lang r)"
proof (induction s)
  case Nil
  then show ?case by (simp add: nullable_iff)
next
  case (Cons c cs)
  have "(\<exists>a p q. c # cs = a @ p @ q \<and> p \<in> lang r) \<longleftrightarrow>
          (\<exists>p q. c # cs = p @ q \<and> p \<in> lang r) \<or> (\<exists>a p q. cs = a @ p @ q \<and> p \<in> lang r)"
  proof
    assume "\<exists>a p q. c # cs = a @ p @ q \<and> p \<in> lang r"
    then obtain a p q where e: "c # cs = a @ p @ q" and p: "p \<in> lang r" by blast
    show "(\<exists>p q. c # cs = p @ q \<and> p \<in> lang r) \<or> (\<exists>a p q. cs = a @ p @ q \<and> p \<in> lang r)"
    proof (cases a)
      case Nil
      with e p show ?thesis by auto
    next
      case (Cons x a')
      with e have "cs = a' @ p @ q" by simp
      with p show ?thesis by blast
    qed
  next
    assume "(\<exists>p q. c # cs = p @ q \<and> p \<in> lang r) \<or> (\<exists>a p q. cs = a @ p @ q \<and> p \<in> lang r)"
    then show "\<exists>a p q. c # cs = a @ p @ q \<and> p \<in> lang r"
    proof
      assume "\<exists>p q. c # cs = p @ q \<and> p \<in> lang r"
      then obtain p q where "c # cs = [] @ p @ q" "p \<in> lang r" by auto
      then show ?thesis by blast
    next
      assume "\<exists>a p q. cs = a @ p @ q \<and> p \<in> lang r"
      then obtain a p q where "c # cs = (c # a) @ p @ q" "p \<in> lang r" by auto
      then show ?thesis by blast
    qed
  qed
  with Cons show ?case by (simp only: re_search.simps match_here_iff)
qed

text \<open>The pattern \<open>product.*title|name\<close> in plain words.\<close>

lemma lang_word: "lang (word s) = {lit s}"
  by (induction s) (auto simp: word_def lit_def)

lemma star_Dot: "star (lang Dot) = {m. 10 \<notin> set m}"
proof (intro set_eqI iffI)
  fix m assume "m \<in> star (lang Dot)"
  then show "m \<in> {m. 10 \<notin> set m}" by (induction rule: star.induct) auto
next
  fix m :: ustr assume "m \<in> {m. 10 \<notin> set m}"
  then show "m \<in> star (lang Dot)"
  proof (induction m)
    case Nil
    show ?case by (rule star.star_Nil)
  next
    case (Cons c m)
    then have "[c] \<in> lang Dot" and "m \<in> star (lang Dot)" by auto
    then have "[c] @ m \<in> star (lang Dot)" by (rule star.star_App)
    then show ?case by simp
  qed
qed

lemma lang_re_name:
  "lang re_name = {lit ''product'' @ m @ lit ''title'' | m. 10 \<notin> set m} \<union> {lit ''name''}"
proof -
  have "lang re_name =
          {u @ v | u v. u \<in> {lit ''product''} \<and>
             v \<in> {u @ v | u v. u \<in> {m. 10 \<notin> set m} \<and> v \<in> {lit ''title''}}} \<union>
          {lit ''name''}"
    by (simp only: re_name_def lang.simps(5,6,7) lang_word star_Dot)
  then show ?thesis by auto
qed

lemma re_search_re_name:
  "re_search re_name s \<longleftrightarrow>
     (\<exists>a m b. s = a @ lit ''product'' @ m @ lit ''title'' @ b \<and> 10 \<notin> set m) \<or>
     (\<exists>a b. s = a @ lit ''name'' @ b)"
  (is "_ \<longleftrightarrow> ?pt \<or> ?n")
proof
  assume "re_search re_name s"
  then obtain a p q where s: "s = a @ p @ q" and p: "p \<in> lang re_name"
    unfolding re_search_iff by blast
  from p consider (pt) m where "p = lit ''product'' @ m @ lit ''title''" "10 \<notin> set m"
    | (n) "p = lit ''name''"
    unfolding lang_re_name by blast
  then show "?pt \<or> ?n"
  proof cases
    case pt
    with s have "s = a @ lit ''product'' @ m @ lit ''title'' @ q" by simp
    with pt show ?thesis by blast
  next
    case n
    with s show ?thesis by blast
  qed
next
  assume "?pt \<or> ?n"
  then show "re_search re_name s"
  proof
    assume ?pt
    then obtain a m b where s: "s = a @ lit ''product'' @ m @ lit ''title'' @ b"
      and m: "10 \<notin> set m" by blast
    from s have "s = a @ (lit ''product'' @ m @ lit ''title'') @ b" by simp
    moreover from m have "lit ''product'' @ m @ lit ''title'' \<in> lang re_name"
      unfolding lang_re_name by blast
    ultimately show ?thesis unfolding re_search_iff by blast
  next
    assume ?n
    then obtain a b where "s = a @ lit ''name'' @ b" by blast
    moreover have "lit ''name'' \<in> lang re_name" unfolding lang_re_name by blast
    ultimately show ?thesis unfolding re_search_iff by blast
  qed
qed


text \<open>A class string without a space matches a tag exactly when it is one of its tokens.\<close>

lemma join_space_has_space: "32 \<in> set (join_space (t # t' # ts))"
  by simp

lemma join_space_token:
  assumes "32 \<notin> set v" and "v \<noteq> []" and "join_space toks = v"
  shows "toks = [v]"
proof (cases toks)
  case Nil
  with assms show ?thesis by simp
next
  case (Cons t ts)
  show ?thesis
  proof (cases ts)
    case Nil
    with Cons assms show ?thesis by simp
  next
    case (Cons t' ts')
    with \<open>toks = t # ts\<close> have "32 \<in> set (join_space toks)"
      by (simp only: join_space_has_space)
    with assms show ?thesis by simp
  qed
qed

lemma class_matches_token:
  assumes "32 \<notin> set v" and "v \<noteq> []"
  shows "class_matches (ClassStr v) toks \<longleftrightarrow> v \<in> set toks"
proof
  assume "class_matches (ClassStr v) toks"
  then have "v \<in> set toks \<or> join_space toks = v"
    by (auto simp: class_matches_def)
  then show "v \<in> set toks"
  proof
    assume "join_space toks = v"
    with assms have "toks = [v]" by (rule join_space_token)
    then show ?thesis by simp
  qed
next
  assume "v \<in> set toks"
  then show "class_matches (ClassStr v) toks" by (auto simp: class_matches_def)
qed

lemma class_matches_product_item_link:
  "class_matches (ClassStr (lit ''product-item-link'')) toks \<longleftrightarrow>
     lit ''product-item-link'' \<in> set toks"
  by (rule class_matches_token) (simp_all add: lit_def)

lemma class_matches_re_name:
  "class_matches (ClassRe re_name) toks \<longleftrightarrow>
     (\<exists>t \<in> set (toks @ [join_space toks]).
        (\<exists>a m b. t = a @ lit ''product'' @ m @ lit ''title'' @ b \<and> 10 \<notin> set m) \<or>
        (\<exists>a b. t = a @ lit ''name'' @ b))"
  by (auto simp: class_matches_def re_search_re_name)

text \<open>\<open>find\<close> returns the first tag that matches, and \<open>None\<close> when no tag matches.\<close>

lemma find_tag_None: "find_tag t names f = None \<longleftrightarrow> (\<forall>el \<in> set (descendants t). \<not> tag_matches names f el)"
  by (auto simp: find_tag_def find_None_iff)

lemma find_tag_Some:
  "find_tag t names f = Some el \<longleftrightarrow>
     (\<exists>i < length (descendants t). descendants t ! i = el \<and> tag_matches names f el \<and>
        (\<forall>j < i. \<not> tag_matches names f (descendants t ! j)))"
  by (auto simp: find_tag_def find_Some_iff)

text \<open>
  Claim C8, as amended. Within a product block that was found, the designation is the
  text, stripped of surrounding white space, of the first element in document order
  that passes the one selector of the adapter, and the literal \<open>"N/A"\<close> when no
  element passes. For \<open>scrape_luxior\<close> the selector is an \<open>a\<close> element that has the
  class token \<open>product-item-link\<close>, matched by equality. For \<open>scrape_ami3f\<close> it is an
  \<open>h2\<close>, \<open>h3\<close> or \<open>a\<close> element with a class token, or the class attribute as a
  whole, in which the pattern \<open>product.*title|name\<close> is found: the string contains
  \<open>name\<close>, or \<open>product\<close> followed on the same line by \<open>title\<close>, in exactly these
  lower-case letters.
\<close>

theorem designation_selectors:
  "luxior_designation c =
     (case find_tag c [lit ''a''] (ClassStr (lit ''product-item-link'')) of
        None \<Rightarrow> lit ''N/A'' | Some el \<Rightarrow> strip (get_text el)) \<and>
   ami3f_designation c =
     (case find_tag c [lit ''h2'', lit ''h3'', lit ''a''] (ClassRe re_name) of
        None \<Rightarrow> lit ''N/A'' | Some el \<Rightarrow> strip (get_text el)) \<and>
   (tag_matches [lit ''a''] (ClassStr (lit ''product-item-link'')) (Tag n toks kids) \<longleftrightarrow>
      n = lit ''a'' \<and> lit ''product-item-link'' \<in> set toks) \<and>
   (tag_matches [lit ''h2'', lit ''h3'', lit ''a''] (ClassRe re_name) (Tag n toks kids) \<longleftrightarrow>
      (n = lit ''h2'' \<or> n = lit ''h3'' \<or> n = lit ''a'') \<and>
      (\<exists>t \<in> set (toks @ [join_space toks]).
         (\<exists>a m b. t = a @ lit ''product'' @ m @ lit ''title'' @ b \<and> 10 \<notin> set m) \<or>
         (\<exists>a b. t = a @ lit ''name'' @ b)))"
proof -
  have 1: "luxior_designation c =
     (case find_tag c [lit ''a''] (ClassStr (lit ''product-item-link'')) of
        None \<Rightarrow> lit ''N/A'' | Some el \<Rightarrow> strip (get_text el))"
    by (simp add: luxior_designation_def text_or_def)
  have 2: "ami3f_designation c =
     (case find_tag c [lit ''h2'', lit ''h3'', lit ''a''] (ClassRe re_name) of
        None \<Rightarrow> lit ''N/A'' | Some el \<Rightarrow> strip (get_text el))"
    by (simp add: ami3f_designation_def text_or_def)
  have 3: "tag_matches [lit ''a''] (ClassStr (lit ''product-item-link'')) (Tag n toks kids) \<longleftrightarrow>
      n = lit ''a'' \<and> lit ''product-item-link'' \<in> set toks"
    by (simp add: class_matches_product_item_link)
  have 4: "tag_matches [lit ''h2'', lit ''h3'', lit ''a''] (ClassRe re_name) (Tag n toks kids) \<longleftrightarrow>
      (n = lit ''h2'' \<or> n = lit ''h3'' \<or> n = lit ''a'') \<and>
      (\<exists>t \<in> set (toks @ [join_space toks]).
         (\<exists>a m b. t = a @ lit ''product'' @ m @ lit ''title'' @ b \<and> 10 \<notin> set m) \<or>
         (\<exists>a b. t = a @ lit ''name'' @ b))"
    unfolding tag_matches.simps class_matches_re_name by simp
  from 1 2 3 4 show ?thesis by (intro conjI)
qed

text \<open>A heading of class \<open>product-title\<close> is taken; one of class \<open>Product-Title\<close> is not.\<close>

lemma find_vanne:
  "find_tag card_prix [lit ''h2'', lit ''h3'', lit ''a''] (ClassRe re_name)
     = Some (Tag (lit ''h2'') [lit ''product-title''] [NavigableString (lit ''Vanne 3F'')])"
  by (simp add: find_defs card_prix_def re_name_def re_price_def word_def)

lemma find_majuscule:
  "find_tag card_majuscule [lit ''h2'', lit ''h3'', lit ''a''] (ClassRe re_name) = None"
  by (simp add: find_defs card_majuscule_def re_name_def word_def)

lemma strip_vanne: "strip (lit ''Vanne 3F'') = lit ''Vanne 3F''"
  by (simp add: strip_def lstrip_def rstrip_def isspace_def lit_def)

theorem designation_selectors_witness:
  "ami3f_designation card_prix = lit ''Vanne 3F'' \<and>
   ami3f_designation card_majuscule = lit ''N/A'' \<and>
   tag_matches [lit ''h2'', lit ''h3'', lit ''a''] (ClassRe re_name)
     (Tag (lit ''h2'') [lit ''product-title''] [NavigableString (lit ''Vanne 3F'')])"
proof -
  from designation_selectors [of card_prix]
  have "ami3f_designation card_prix = lit ''Vanne 3F''"
    by (simp add: find_vanne strip_vanne)
  moreover from designation_selectors [of card_majuscule]
  have "ami3f_designation card_majuscule = lit ''N/A''"
    by (simp add: find_majuscule)
  moreover have "lit ''product-title'' = [] @ lit ''product'' @ lit ''-'' @ lit ''title'' @ []"
    by (simp add: lit_def)
  then have "\<exists>a m b. lit ''product-title'' = a @ lit ''product'' @ m @ lit ''title'' @ b \<and> 10 \<notin> set m"
    by (intro exI [of _ "[]"] exI [of _ "lit ''-''"] conjI) (simp_all add: lit_def)
  with designation_selectors
      [of card_prix "lit ''h2''" "[lit ''product-title'']" "[NavigableString (lit ''Vanne 3F'')]"]
  have "tag_matches [lit ''h2'', lit ''h3'', lit ''a''] (ClassRe re_name)
     (Tag (lit ''h2'') [lit ''product-title''] [NavigableString (lit ''Vanne 3F'')])"
    by simp
  ultimately show ?thesis by (intro conjI)
qed

text \<open>
  Claim C8 as the specification words it fails: the only heading of the product card
  has the class \<open>Product-Title\<close>, which contains \<open>title\<close> when the letter case is
  ignored, and the text \<open>Lampe\<close>; the designation of the record is \<open>"N/A"\<close>.
\<close>

lemma find_page_majuscule:
  "find_tag page_majuscule [lit ''div''] (ClassStr (lit ''product-card'')) = Some card_majuscule"
  by (simp add: find_defs fixture_defs)

lemma scrape_ami3f_page_majuscule:
  "scrape_ami3f (env_of ok (Inr page_majuscule)) ref = Inr (ami3f_produit ref card_majuscule)"
  using scrape_ami3f_soup [of "env_of ok (Inr page_majuscule)" ref page_majuscule]
  by (simp add: soup_of_env_of_ok ami3f_product_card_def find_page_majuscule)

lemma spec_class_majuscule: "spec_designation_class (lit ''Product-Title'')"
  by (simp add: spec_designation_class_def lower_def lower_cp_def lit_def)

theorem designation_case_counterexample:
  "card_majuscule =
     Tag (lit ''div'') [lit ''product-card'']
       [Tag (lit ''h2'') [lit ''Product-Title''] [NavigableString (lit ''Lampe'')]] \<and>
   spec_designation_class (lit ''Product-Title'') \<and>
   scrape_ami3f (env_of ok (Inr page_majuscule)) (lit ''REF-1'')
     = Inr (ami3f_produit (lit ''REF-1'') card_majuscule) \<and>
   designation (ami3f_produit (lit ''REF-1'') card_majuscule) = Some (lit ''N/A'') \<and>
   lit ''N/A'' \<noteq> lit ''Lampe''"
proof -
  have "designation (ami3f_produit (lit ''REF-1'') card_majuscule) = Some (lit ''N/A'')"
    by (simp add: ami3f_produit_def ami3f_designation_def text_or_def find_majuscule)
  moreover have "lit ''N/A'' \<noteq> lit ''Lampe''" by (simp add: lit_def)
  ultimately show ?thesis
    using card_majuscule_def spec_class_majuscule
      scrape_ami3f_page_majuscule [of "lit ''REF-1''"]
    by (intro conjI)
qed

subsection \<open>C5: the price normalizer\<close>

text \<open>
  The exponent that \<open>binary64\<close> computes: \<open>bit_length n\<close> is the number of binary
  digits of \<open>n\<close>, and \<open>floor_log2 x\<close> is the power of two at or just below \<open>x\<close>.
\<close>

lemma bit_length_bounds:
  "0 < n \<Longrightarrow> 2 ^ (bit_length n - 1) \<le> n \<and> n < 2 ^ bit_length n"
proof (induction n rule: bit_length.induct)
  case (1 n)
  show ?case
  proof (cases "n div 2 = 0")
    case True
    with "1.prems" have "n = 1" by (simp add: div_eq_0_iff)
    then show ?thesis by (simp add: bit_length.simps)
  next
    case False
    then have pos: "0 < n div 2" by simp
    with "1.prems" "1.IH" have IH: "2 ^ (bit_length (n div 2) - 1) \<le> n div 2"
      "n div 2 < 2 ^ bit_length (n div 2)" by simp_all
    from pos have bl: "0 < bit_length (n div 2)" by (subst bit_length.simps) simp
    from "1.prems" have b: "bit_length n = 1 + bit_length (n div 2)"
      by (subst bit_length.simps) simp
    from bl have "(2::nat) ^ bit_length (n div 2) = 2 * 2 ^ (bit_length (n div 2) - 1)"
      by (cases "bit_length (n div 2)") simp_all
    with IH have "2 ^ bit_length (n div 2) \<le> n" "n < 2 * 2 ^ bit_length (n div 2)"
      by linarith+
    with b show ?thesis by simp
  qed
qed

lemma pow2_pos: "0 < pow2 e"
  by (simp add: pow2_def)

lemma pow2_Suc: "pow2 (e + 1) = 2 * pow2 e"
proof (cases "0 \<le> e")
  case True
  then show ?thesis by (simp add: pow2_def nat_add_distrib)
next
  case False
  then have "nat (- e) = Suc (nat (- (e + 1)))" by simp
  with False show ?thesis by (simp add: pow2_def)
qed

lemma pow2_nat: "pow2 (int b) = 2 ^ b"
  by (simp add: pow2_def)

lemma pow2_neg_nat: "pow2 (- int b) = 1 / 2 ^ b"
  by (cases "b = 0") (simp_all add: pow2_def)


lemma floor_nat_bounds:
  assumes "1 \<le> (y::rat)"
  shows "0 < nat \<lfloor>y\<rfloor>" and "of_nat (nat \<lfloor>y\<rfloor>) \<le> y" and "y < of_nat (nat \<lfloor>y\<rfloor>) + 1"
proof -
  from assms have f: "1 \<le> \<lfloor>y\<rfloor>" by (simp add: le_floor_iff)
  then show "0 < nat \<lfloor>y\<rfloor>" by simp
  from f have "of_nat (nat \<lfloor>y\<rfloor>) = (of_int \<lfloor>y\<rfloor> :: rat)" by simp
  with floor_correct [of y]
  show "of_nat (nat \<lfloor>y\<rfloor>) \<le> y" and "y < of_nat (nat \<lfloor>y\<rfloor>) + 1"
    by simp_all
qed

lemma bit_length_floor:
  assumes "1 \<le> (y::rat)"
  shows "2 ^ (bit_length (nat \<lfloor>y\<rfloor>) - 1) \<le> y" and "y < 2 ^ bit_length (nat \<lfloor>y\<rfloor>)"
    and "0 < bit_length (nat \<lfloor>y\<rfloor>)"
proof -
  let ?k = "nat \<lfloor>y\<rfloor>"
  from floor_nat_bounds [OF assms] have k: "0 < ?k" "of_nat ?k \<le> y" "y < of_nat ?k + 1"
    by simp_all
  from bit_length_bounds [OF k(1)]
  have b: "2 ^ (bit_length ?k - 1) \<le> ?k" "?k < 2 ^ bit_length ?k" by simp_all
  from b(1) have "(2::rat) ^ (bit_length ?k - 1) \<le> of_nat ?k"
    by (metis of_nat_le_iff of_nat_numeral of_nat_power)
  with k(2) show "2 ^ (bit_length ?k - 1) \<le> y" by linarith
  from b(2) have "Suc ?k \<le> 2 ^ bit_length ?k" by (rule Suc_leI)
  then have "(of_nat (Suc ?k) :: rat) \<le> of_nat (2 ^ bit_length ?k)"
    by (simp only: of_nat_le_iff)
  then have "(of_nat ?k :: rat) + 1 \<le> 2 ^ bit_length ?k" by simp
  with k(3) show "y < 2 ^ bit_length ?k" by linarith
  from k(1) show "0 < bit_length ?k" by (subst bit_length.simps) simp
qed

lemma floor_log2_bounds:
  assumes "0 < x"
  shows "pow2 (floor_log2 x) \<le> x \<and> x < pow2 (floor_log2 x + 1)"
proof (cases "1 \<le> x")
  case True
  let ?b = "bit_length (nat \<lfloor>x\<rfloor>)"
  from bit_length_floor [OF True] have b: "2 ^ (?b - 1) \<le> x" "x < 2 ^ ?b" "0 < ?b" by simp_all
  from True have f: "floor_log2 x = int ?b - 1" by (simp add: floor_log2_def)
  from b(3) have "int ?b - 1 = int (?b - 1)" by simp
  then have "pow2 (floor_log2 x) = 2 ^ (?b - 1)" unfolding f by (simp only: pow2_nat)
  moreover have "pow2 (floor_log2 x + 1) = 2 ^ ?b" unfolding f by (simp add: pow2_nat)
  ultimately show ?thesis using b by simp
next
  case False
  with assms have y: "1 \<le> 1 / x" by simp
  let ?b = "bit_length (nat \<lfloor>1 / x\<rfloor>)"
  from bit_length_floor [OF y] have b: "2 ^ (?b - 1) \<le> 1 / x" "1 / x < 2 ^ ?b" "0 < ?b"
    by simp_all
  from assms b(1) have up: "x \<le> 1 / 2 ^ (?b - 1)"
    by (simp add: field_simps)
  from assms b(2) have lo: "1 / 2 ^ ?b < x"
    by (simp add: field_simps)
  have p0: "pow2 (- int ?b) = 1 / 2 ^ ?b" by (rule pow2_neg_nat)
  from b(3) have "- int ?b + 1 = - int (?b - 1)" by simp
  then have p1: "pow2 (- int ?b + 1) = 1 / 2 ^ (?b - 1)" by (simp only: pow2_neg_nat)
  have p2: "pow2 (- int ?b + 1 + 1) = 2 * pow2 (- int ?b + 1)" by (rule pow2_Suc)
  show ?thesis
  proof (cases "pow2 (- int ?b + 1) \<le> x")
    case True
    with False have f: "floor_log2 x = - int ?b + 1" by (simp add: floor_log2_def Let_def)
    from up p1 have "x \<le> pow2 (- int ?b + 1)" by simp
    with pow2_pos [of "- int ?b + 1"] have "x < 2 * pow2 (- int ?b + 1)" by linarith
    with True show ?thesis unfolding f p2 by simp
  next
    case nle: False
    with False have f: "floor_log2 x = - int ?b" by (simp add: floor_log2_def Let_def)
    from lo p0 have "pow2 (- int ?b) \<le> x" by simp
    with nle show ?thesis unfolding f by simp
  qed
qed




text \<open>Rounding to an integer: to a nearest one, and to the even one of two.\<close>

lemma round_half_even_cases:
  fixes y :: rat
  defines "n \<equiv> \<lfloor>y\<rfloor>"
  shows "(round_half_even y = n \<and> y - of_int n \<le> 1 / 2) \<or>
         (round_half_even y = n + 1 \<and> 1 / 2 \<le> y - of_int n)"
  by (simp add: round_half_even_def Let_def n_def)

lemma round_half_even_nearest:
  "\<bar>of_int (round_half_even y) - y\<bar> \<le> \<bar>of_int k - y\<bar>"
proof -
  define n where "n = \<lfloor>y\<rfloor>"
  have lo: "of_int n \<le> y" and hi: "y < of_int n + 1"
    using floor_correct [of y] by (simp_all add: n_def)
  consider (le) "k \<le> n" | (ge) "n + 1 \<le> k" by linarith
  then show ?thesis
  proof cases
    case le
    then have k: "(of_int k :: rat) \<le> of_int n" by simp
    from round_half_even_cases [of y] show ?thesis
      unfolding n_def [symmetric] using k lo hi by (elim disjE conjE) (simp, linarith)+
  next
    case ge
    then have "(of_int (n + 1) :: rat) \<le> of_int k" by (simp only: of_int_le_iff)
    then have k: "(of_int n :: rat) + 1 \<le> of_int k" by simp
    from round_half_even_cases [of y] show ?thesis
      unfolding n_def [symmetric] using k lo hi by (elim disjE conjE) (simp, linarith)+
  qed
qed

lemma round_half_even_tie:
  assumes "\<bar>of_int (round_half_even y) - y\<bar> = \<bar>of_int k - y\<bar>" and "k \<noteq> round_half_even y"
  shows "even (round_half_even y)"
proof -
  define n where "n = \<lfloor>y\<rfloor>"
  define m where "m = round_half_even y"
  have lo: "of_int n \<le> y" and hi: "y < of_int n + 1"
    using floor_correct [of y] by (simp_all add: n_def)
  from round_half_even_cases [of y] have mc: "m = n \<or> m = n + 1"
    unfolding n_def m_def by blast
  have half: "y - of_int n = 1 / 2"
  proof (rule ccontr)
    assume nh: "y - of_int n \<noteq> 1 / 2"
    consider (lt) "k < m" | (gt) "m < k" using assms(2) m_def by linarith
    then show False
    proof cases
      case lt
      then have "(of_int (k + 1) :: rat) \<le> of_int m" by simp
      then have "(of_int k :: rat) + 1 \<le> of_int m" by simp
      with assms(1) mc nh lo hi round_half_even_cases [of y] show False
        unfolding n_def [symmetric] m_def [symmetric] by (auto simp: abs_if split: if_splits)
    next
      case gt
      then have "(of_int (m + 1) :: rat) \<le> of_int k" by simp
      then have "(of_int m :: rat) + 1 \<le> of_int k" by simp
      with assms(1) mc nh lo hi round_half_even_cases [of y] show False
        unfolding n_def [symmetric] m_def [symmetric] by (auto simp: abs_if split: if_splits)
    qed
  qed
  then have "m = (if even n then n else n + 1)"
    by (simp add: m_def round_half_even_def Let_def n_def)
  then show ?thesis unfolding m_def [symmetric] by (simp split: if_splits)
qed


lemma pow2_add_nat: "pow2 (a + int n) = 2 ^ n * pow2 a"
proof (induction n)
  case 0
  show ?case by simp
next
  case (Suc n)
  have "pow2 (a + int (Suc n)) = pow2 (a + int n + 1)" by (simp add: ac_simps)
  also have "\<dots> = 2 * pow2 (a + int n)" by (rule pow2_Suc)
  finally show ?case using Suc by simp
qed

lemma pow2_mono: "a \<le> b \<Longrightarrow> pow2 a \<le> pow2 b"
proof -
  assume "a \<le> b"
  then obtain n where b: "b = a + int n" by (metis zle_iff_zadd)
  have "(1::rat) \<le> 2 ^ n" by simp
  with pow2_pos [of a] have "pow2 a \<le> 2 ^ n * pow2 a" by simp
  then show ?thesis unfolding b pow2_add_nat .
qed

text \<open>\<open>floor_log2 x\<close> is the one \<open>f\<close> with \<open>2 ^ f \<le> x < 2 ^ (f + 1)\<close>.\<close>

lemma floor_log2_eqI:
  assumes "0 < x" and "pow2 f \<le> x" and "x < pow2 (f + 1)"
  shows "floor_log2 x = f"
proof (rule ccontr)
  assume ne: "floor_log2 x \<noteq> f"
  from floor_log2_bounds [OF assms(1)]
  have g: "pow2 (floor_log2 x) \<le> x" "x < pow2 (floor_log2 x + 1)" by simp_all
  consider "floor_log2 x + 1 \<le> f" | "f + 1 \<le> floor_log2 x" using ne by linarith
  then show False
  proof cases
    case 1
    then have "pow2 (floor_log2 x + 1) \<le> pow2 f" by (rule pow2_mono)
    with g(2) assms(2) show False by linarith
  next
    case 2
    then have "pow2 (f + 1) \<le> pow2 (floor_log2 x)" by (rule pow2_mono)
    with g(1) assms(3) show False by linarith
  qed
qed

text \<open>
  The float of a positive \<open>x\<close> is a multiple of the spacing \<open>2 ^ e\<close> at \<open>x\<close>, no other
  multiple is nearer to \<open>x\<close>, and where another one is as near, the one taken is even.
\<close>

lemma binary64_pos_nearest:
  fixes x :: rat
  defines "e \<equiv> max (floor_log2 x - 52) (- 1074)"
  defines "m \<equiv> round_half_even (x / pow2 e)"
  shows "binary64_pos x =
           (if pow2 1024 \<le> of_int m * pow2 e then PlusInfinity else Finite (of_int m * pow2 e))"
    and "\<bar>of_int m * pow2 e - x\<bar> \<le> \<bar>of_int k * pow2 e - x\<bar>"
    and "\<bar>of_int m * pow2 e - x\<bar> = \<bar>of_int k * pow2 e - x\<bar> \<Longrightarrow> k \<noteq> m \<Longrightarrow> even m"
proof -
  have p: "0 < pow2 e" by (rule pow2_pos)
  have scale: "\<bar>of_int j * pow2 e - x\<bar> = pow2 e * \<bar>of_int j - x / pow2 e\<bar>" for j :: int
  proof -
    from p have "of_int j * pow2 e - x = pow2 e * (of_int j - x / pow2 e)"
      by (simp add: field_simps)
    with p show ?thesis by (simp add: abs_mult)
  qed
  show "binary64_pos x =
           (if pow2 1024 \<le> of_int m * pow2 e then PlusInfinity else Finite (of_int m * pow2 e))"
    by (simp add: binary64_pos_def Let_def e_def m_def)
  from round_half_even_nearest [of "x / pow2 e" k] p
  show "\<bar>of_int m * pow2 e - x\<bar> \<le> \<bar>of_int k * pow2 e - x\<bar>"
    unfolding scale m_def by simp
  assume "\<bar>of_int m * pow2 e - x\<bar> = \<bar>of_int k * pow2 e - x\<bar>" and "k \<noteq> m"
  with p have "\<bar>of_int (round_half_even (x / pow2 e)) - x / pow2 e\<bar> = \<bar>of_int k - x / pow2 e\<bar>"
    and "k \<noteq> round_half_even (x / pow2 e)"
    unfolding scale m_def by simp_all
  then show "even m" unfolding m_def by (rule round_half_even_tie)
qed

text \<open>Computing a float from the bounds that determine it.\<close>

lemma binary64_pos_eval:
  assumes "0 < x" and "pow2 f \<le> x" and "x < pow2 (f + 1)"
    and "e = max (f - 52) (- 1074)"
    and "of_int n \<le> x / pow2 e" and "x / pow2 e < of_int n + 1"
  shows "binary64_pos x =
     (let r = x / pow2 e - of_int n;
          m = (if r < 1 / 2 then n else if 1 / 2 < r then n + 1 else if even n then n else n + 1);
          v = of_int m * pow2 e
      in if pow2 1024 \<le> v then PlusInfinity else Finite v)"
proof -
  from assms(1,2,3) have "floor_log2 x = f" by (rule floor_log2_eqI)
  moreover from assms(5,6) have "\<lfloor>x / pow2 e\<rfloor> = n" by (rule floor_unique)
  ultimately show ?thesis using assms(4)
    by (simp add: binary64_pos_def round_half_even_def Let_def)
qed


text \<open>
  Three values that a float does not keep: \<open>2 ^ 53 + 1\<close> lies half-way between two
  floats and goes to the even one, \<open>10 ^ 400\<close> is beyond the largest float, and
  \<open>10 ^ (- 400)\<close> is below half the smallest one.
\<close>

lemma binary64_tie: "binary64 9007199254740993 = Finite 9007199254740992"
proof -
  have "binary64_pos 9007199254740993 =
     (let r = 9007199254740993 / pow2 1 - of_int 4503599627370496;
          m = (if r < 1 / 2 then 4503599627370496 else if 1 / 2 < r then 4503599627370496 + 1
               else if even (4503599627370496 :: int) then 4503599627370496
               else 4503599627370496 + 1);
          v = of_int m * pow2 1
      in if pow2 1024 \<le> v then PlusInfinity else Finite v)"
    by (rule binary64_pos_eval [where f = 53]) (simp_all add: pow2_def)
  then have "binary64_pos 9007199254740993 = Finite 9007199254740992"
    by (simp add: pow2_def Let_def)
  then show ?thesis by (simp add: binary64_def)
qed

lemma binary64_overflow: "binary64 (10 ^ 400) = PlusInfinity"
proof -
  have "binary64_pos (10 ^ 400) =
     (let r = 10 ^ 400 / pow2 1276 - of_int 7686445155841023;
          m = (if r < 1 / 2 then 7686445155841023 else if 1 / 2 < r then 7686445155841023 + 1
               else if even (7686445155841023 :: int) then 7686445155841023 else 7686445155841023 + 1);
          v = of_int m * pow2 1276
      in if pow2 1024 \<le> v then PlusInfinity else Finite v)"
    by (rule binary64_pos_eval [where f = 1328]) (simp_all add: pow2_def)
  then have "binary64_pos (10 ^ 400) = PlusInfinity"
    by (simp add: pow2_def Let_def)
  then show ?thesis by (simp add: binary64_def)
qed

lemma binary64_underflow: "binary64 (1 / 10 ^ 400) = Finite 0"
proof -
  have "binary64_pos (1 / 10 ^ 400) =
     (let r = 1 / 10 ^ 400 / pow2 (- 1074) - of_int 0;
          m = (if r < 1 / 2 then 0 else if 1 / 2 < r then 0 + 1
               else if even (0 :: int) then 0 else 0 + 1);
          v = of_int m * pow2 (- 1074)
      in if pow2 1024 \<le> v then PlusInfinity else Finite v)"
    by (rule binary64_pos_eval [where f = "- 1329"]) (simp_all add: pow2_def)
  then have "binary64_pos (1 / 10 ^ 400) = Finite 0"
    by (simp add: pow2_def Let_def)
  then show ?thesis by (simp add: binary64_def)
qed

lemma float_tie: "float (lit ''9007199254740993'') = Inr (Finite 9007199254740992)"
proof -
  have "float (lit ''9007199254740993'') = Inr (binary64 9007199254740993)"
    by (simp add: float_def lit_def decimal_low digits_value_def)
  then show ?thesis by (simp only: binary64_tie)
qed














end
